theory Spec2Isabelle
  imports Main
begin

section \<open>Extensible dialects: dynamic types and operations\<close>

text \<open>
  A shallow embedding of \<^verbatim>\<open>mlir/lib/IR/ExtensibleDialect.cpp\<close>.  Objects that the C++
  code reaches through raw pointers live in explicit heaps of the context (a pointer is
  an index into the heap); \<^verbatim>\<open>assert\<close> is a fatal error value; every function that
  mutates the context takes it and returns the new one.
\<close>

subsection \<open>Basic values\<close>

type_synonym TypeID = nat
type_synonym Attribute = nat
type_synonym Location = nat
type_synonym Diagnostic = "Location \<times> string"

type_synonym DialectPtr = nat
type_synonym TypeDefPtr = nat
type_synonym StoragePtr = nat

datatype LogicalResult = success | failure

type_synonym ParseResult = LogicalResult

definition failed :: "LogicalResult \<Rightarrow> bool" where
  "failed r = (r = failure)"

definition succeeded :: "LogicalResult \<Rightarrow> bool" where
  "succeeded r = (r = success)"

text \<open>
  A fatal stop of the program: a failed \<^verbatim>\<open>assert\<close> (with the message of the source), or
  the use of a pointer that points at no object (undefined behaviour in C++).
\<close>

datatype Fatal = AssertionFailure string | InvalidPointer

definition deref :: "'a list \<Rightarrow> nat \<Rightarrow> 'a option" where
  "deref heap p = (if p < length heap then Some (heap ! p) else None)"

subsection \<open>The token stream and the output stream\<close>

text \<open>
  Modelled from the spec: the parser and printer primitives of \<^verbatim>\<open>DialectAsmParser\<close>,
  \<^verbatim>\<open>OpAsmParser\<close> and \<^verbatim>\<open>DialectAsmPrinter\<close> (section 6: try consume begin-delimiter, try
  consume end-delimiter, consume comma, parse one attribute value, emit error at current
  position).  Both streams are sequences of tokens: the text \<^verbatim>\<open><\<close> is \<open>Less\<close>, \<^verbatim>\<open>>\<close> is
  \<open>Greater\<close>, the separator \<^verbatim>\<open>, \<close> is \<open>Comma\<close>, the text of one attribute value is
  \<open>AttrValue\<close> and a bare name is \<open>BareIdentifier\<close>.
\<close>

datatype Token = Less | Greater | Comma | AttrValue Attribute | BareIdentifier string

record AsmParser =
  input :: "Token list"
  consumed :: nat
  diagnostics :: "Diagnostic list"

type_synonym DialectAsmParser = AsmParser
type_synonym OpAsmParser = AsmParser
type_synonym DialectAsmPrinter = "Token list"

definition getCurrentLocation :: "AsmParser \<Rightarrow> Location" where
  "getCurrentLocation p = consumed p"

definition emitError :: "AsmParser \<Rightarrow> Location \<Rightarrow> string \<Rightarrow> AsmParser" where
  "emitError p l msg = p\<lparr>diagnostics := diagnostics p @ [(l, msg)]\<rparr>"

definition advance :: "AsmParser \<Rightarrow> AsmParser" where
  "advance p = p\<lparr>input := tl (input p), consumed := Suc (consumed p)\<rparr>"

definition parseOptionalLess :: "AsmParser \<Rightarrow> ParseResult \<times> AsmParser" where
  "parseOptionalLess p =
     (case input p of
        Less # _ \<Rightarrow> (success, advance p)
      | _ \<Rightarrow> (failure, p))"

definition parseOptionalGreater :: "AsmParser \<Rightarrow> ParseResult \<times> AsmParser" where
  "parseOptionalGreater p =
     (case input p of
        Greater # _ \<Rightarrow> (success, advance p)
      | _ \<Rightarrow> (failure, p))"

definition parseComma :: "AsmParser \<Rightarrow> ParseResult \<times> AsmParser" where
  "parseComma p =
     (case input p of
        Comma # _ \<Rightarrow> (success, advance p)
      | _ \<Rightarrow> (failure, emitError p (getCurrentLocation p) ''expected comma''))"

text \<open>\<open>parseAttribute\<close> returns the attribute on success and \<open>None\<close> on failure.\<close>

definition parseAttribute :: "AsmParser \<Rightarrow> Attribute option \<times> AsmParser" where
  "parseAttribute p =
     (case input p of
        AttrValue a # _ \<Rightarrow> (Some a, advance p)
      | _ \<Rightarrow> (None, emitError p (getCurrentLocation p) ''expected attribute value''))"

text \<open>\<^verbatim>\<open>llvm::interleaveComma\<close>: the elements, separated by commas.\<close>

fun interleaveComma :: "Attribute list \<Rightarrow> Token list" where
  "interleaveComma [] = []"
| "interleaveComma [a] = [AttrValue a]"
| "interleaveComma (a # b # as) = AttrValue a # Comma # interleaveComma (b # as)"

subsection \<open>Dynamic type definitions: the default hooks\<close>

text \<open>
  A verifier returns its verdict and the messages it streams into the diagnostics that
  \<^verbatim>\<open>emitError\<close> creates for it.
\<close>

type_synonym VerifierFn = "Attribute list \<Rightarrow> LogicalResult \<times> string list"
type_synonym ParserFn =
  "DialectAsmParser \<Rightarrow> Attribute list \<Rightarrow> ParseResult \<times> DialectAsmParser \<times> Attribute list"
type_synonym PrinterFn = "DialectAsmPrinter \<Rightarrow> Attribute list \<Rightarrow> DialectAsmPrinter"

text \<open>
  The default parser of \<^verbatim>\<open>DynamicTypeDefinition::get\<close> (the lambda \<^verbatim>\<open>parser\<close>).  Its
  \<^verbatim>\<open>while (parser.parseOptionalGreater())\<close> loop runs as long as no \<^verbatim>\<open>></\<close> is consumed.
\<close>

function default_parser_loop ::
  "DialectAsmParser \<Rightarrow> Attribute list \<Rightarrow> ParseResult \<times> DialectAsmParser \<times> Attribute list" where
  "default_parser_loop p parsedParams =
     (case parseOptionalGreater p of
        (success, p1) \<Rightarrow> (success, p1, parsedParams)
      | (failure, p1) \<Rightarrow>
          (case parseComma p1 of
             (failure, p2) \<Rightarrow> (failure, p2, parsedParams)
           | (success, p2) \<Rightarrow>
               (case parseAttribute p2 of
                  (None, p3) \<Rightarrow> (failure, p3, parsedParams)
                | (Some attr, p3) \<Rightarrow> default_parser_loop p3 (parsedParams @ [attr]))))"
  by pat_completeness auto
termination
proof (relation "measure (\<lambda>(p, ps). length (input p))")
  show "wf (measure (\<lambda>(p, ps). length (input p)))" by simp
next
  fix p :: DialectAsmParser and parsedParams :: "Attribute list"
    and r1 p1 r2 p2 ao p3 attr
  assume a: "(r1, p1) = parseOptionalGreater p" "r1 = failure"
    and b: "(r2, p2) = parseComma p1" "r2 = success"
    and c: "(ao, p3) = parseAttribute p2" "ao = Some attr"
  from a have "p1 = p"
    by (auto simp: parseOptionalGreater_def split: list.splits Token.splits)
  moreover from b have "length (input p2) < length (input p1)"
    by (auto simp: parseComma_def advance_def split: list.splits Token.splits)
  moreover from c have "length (input p3) < length (input p2)"
    by (auto simp: parseAttribute_def advance_def split: list.splits Token.splits)
  ultimately show "((p3, parsedParams @ [attr]), (p, parsedParams))
      \<in> measure (\<lambda>(p, ps). length (input p))"
    by simp
qed

definition default_parser :: ParserFn where
  "default_parser p parsedParams =
     (case parseOptionalLess p of
        (failure, p1) \<Rightarrow> (success, p1, parsedParams)
      | (success, p1) \<Rightarrow>
          (case parseOptionalGreater p1 of
             (success, p2) \<Rightarrow> (success, p2, parsedParams)
           | (failure, p2) \<Rightarrow>
               (case parseAttribute p2 of
                  (None, p3) \<Rightarrow> (failure, p3, parsedParams)
                | (Some attr, p3) \<Rightarrow> default_parser_loop p3 (parsedParams @ [attr]))))"

text \<open>The default printer of \<^verbatim>\<open>DynamicTypeDefinition::get\<close> (the lambda \<^verbatim>\<open>printer\<close>).\<close>

definition default_printer :: PrinterFn where
  "default_printer pr params =
     (if params = [] then pr
      else pr @ [Less] @ interleaveComma params @ [Greater])"

subsection \<open>Objects and the context\<close>

record DynamicTypeDefinition =
  td_name :: string
  td_dialect :: DialectPtr
  td_verifier :: VerifierFn
  td_parser :: ParserFn
  td_printer :: PrinterFn
  td_typeID :: TypeID

text \<open>\<^verbatim>\<open>detail::DynamicTypeStorage\<close> and its key.\<close>

record DynamicTypeStorage =
  st_typeDef :: TypeDefPtr
  st_params :: "Attribute list"

type_synonym KeyTy = "TypeDefPtr \<times> Attribute list"

text \<open>A \<^verbatim>\<open>DynamicType\<close> is a handle on its storage; \<open>None\<close> is the null type \<^verbatim>\<open>{}\<close>.\<close>

type_synonym DynamicType = "StoragePtr option"

datatype InterfaceID = IsExtensibleDialect | IsDynamicTypeInterface

text \<open>
  Modelled from the spec: the base class \<^verbatim>\<open>Dialect\<close> (namespace, identifier and the
  registered interfaces, the capability markers of section 4.6), extended with the two
  indices of \<^verbatim>\<open>ExtensibleDialect\<close> that \<^verbatim>\<open>addDynamicType\<close> fills.
\<close>

record Dialect =
  d_namespace :: string
  d_typeID :: TypeID
  registeredInterfaces :: "InterfaceID list"
  dynTypes :: "TypeID \<rightharpoonup> TypeDefPtr"
  nameToDynTypes :: "string \<rightharpoonup> TypeDefPtr"

record AbstractType =
  at_dialect :: DialectPtr
  at_interfaceMap :: "InterfaceID list"
  at_typeID :: TypeID

type_synonym Operation = nat
type_synonym OperationState = nat

datatype OpPrintItem = GenericOpForm Operation

type_synonym OpAsmPrinter = "OpPrintItem list"
type_synonym VerifyInvariantsFn = "Operation \<Rightarrow> LogicalResult"
type_synonym ParseAssemblyFn = "OpAsmParser \<Rightarrow> OperationState \<Rightarrow> ParseResult \<times> OpAsmParser"
type_synonym PrintAssemblyFn = "Operation \<Rightarrow> OpAsmPrinter \<Rightarrow> OpAsmPrinter"

record DynamicOpDefinition =
  op_typeID :: TypeID
  op_name :: string
  op_dialect :: DialectPtr
  op_verifyFn :: VerifyInvariantsFn
  op_parseFn :: ParseAssemblyFn
  op_printFn :: PrintAssemblyFn

text \<open>What \<^verbatim>\<open>AbstractOperation::insert\<close> receives, argument by argument.\<close>

record AbstractOperation =
  ao_name :: string
  ao_dialect :: DialectPtr
  ao_typeID :: TypeID
  ao_parseAssembly :: ParseAssemblyFn
  ao_printAssembly :: PrintAssemblyFn
  ao_verifyInvariants :: VerifyInvariantsFn
  ao_foldHook :: "Operation \<Rightarrow> Attribute list \<Rightarrow> LogicalResult"
  ao_getCanonicalizationPatterns :: "nat list \<Rightarrow> nat list"
  ao_interfaceMap :: "InterfaceID list"
  ao_hasTrait :: "TypeID \<Rightarrow> bool"

text \<open>
  The \<^verbatim>\<open>MLIRContext\<close>: the identifier allocator, the heaps of dialects and of dynamic type
  definitions, the arena of type storages with the per-kind tables of the type uniquer,
  and the global tables of registered types and operations.
\<close>

record MLIRContext =
  typeIDAllocator :: nat
  loadedDialects :: "Dialect list"
  typeDefinitions :: "DynamicTypeDefinition list"
  typeStorages :: "DynamicTypeStorage list"
  typeUniquer :: "TypeID \<Rightarrow> StoragePtr list"
  uniquerKinds :: "TypeID list"
  registeredTypes :: "(TypeID \<times> AbstractType) list"
  registeredOperations :: "AbstractOperation list"

text \<open>
  Modelled from the spec: \<^verbatim>\<open>MLIRContext::allocateTypeID\<close> (section 4.1: a fresh identifier,
  strictly distinct from every previously issued one; a counter).
\<close>

definition allocateTypeID :: "MLIRContext \<Rightarrow> TypeID \<times> MLIRContext" where
  "allocateTypeID ctx =
     (typeIDAllocator ctx, ctx\<lparr>typeIDAllocator := Suc (typeIDAllocator ctx)\<rparr>)"

subsection \<open>Dynamic type definitions\<close>

text \<open>
  The constructors of \<^verbatim>\<open>DynamicTypeDefinition\<close>.  Both have the same body: the
  initialisers read the context through \<^verbatim>\<open>dialect\<close> and allocate the identifier, then
  the assertion on the name runs.  The two-argument constructor leaves the three hooks
  empty and \<^verbatim>\<open>DynamicTypeDefinition::get\<close> assigns them at once, so one function with all
  the hooks as arguments serves both.
\<close>

definition DynamicTypeDefinition_ctor ::
  "MLIRContext \<Rightarrow> DialectPtr \<Rightarrow> string \<Rightarrow> VerifierFn \<Rightarrow> ParserFn \<Rightarrow> PrinterFn
     \<Rightarrow> Fatal + (DynamicTypeDefinition \<times> MLIRContext)" where
  "DynamicTypeDefinition_ctor ctx dialect nameRef verifier parser printer =
     (case deref (loadedDialects ctx) dialect of
        None \<Rightarrow> Inl InvalidPointer
      | Some _ \<Rightarrow>
          (case allocateTypeID ctx of
             (tid, ctx1) \<Rightarrow>
               if CHR ''.'' \<in> set nameRef
               then Inl (AssertionFailure ''name should not be prefixed by the dialect name'')
               else Inr (\<lparr>td_name = nameRef, td_dialect = dialect, td_verifier = verifier,
                          td_parser = parser, td_printer = printer, td_typeID = tid\<rparr>, ctx1)))"

text \<open>\<^verbatim>\<open>new DynamicTypeDefinition\<close>: the object gets the next free address of the heap.\<close>

definition new_DynamicTypeDefinition ::
  "MLIRContext \<Rightarrow> DynamicTypeDefinition \<Rightarrow> TypeDefPtr \<times> MLIRContext" where
  "new_DynamicTypeDefinition ctx td =
     (length (typeDefinitions ctx), ctx\<lparr>typeDefinitions := typeDefinitions ctx @ [td]\<rparr>)"

text \<open>\<^verbatim>\<open>DynamicTypeDefinition::get(dialect, name, verifier)\<close>, with the default hooks.\<close>

definition DynamicTypeDefinition_get ::
  "MLIRContext \<Rightarrow> DialectPtr \<Rightarrow> string \<Rightarrow> VerifierFn \<Rightarrow> Fatal + (TypeDefPtr \<times> MLIRContext)" where
  "DynamicTypeDefinition_get ctx dialect nm verifier =
     (case DynamicTypeDefinition_ctor ctx dialect nm verifier default_parser default_printer of
        Inl e \<Rightarrow> Inl e
      | Inr (typeDef, ctx1) \<Rightarrow> Inr (new_DynamicTypeDefinition ctx1 typeDef))"

text \<open>\<^verbatim>\<open>DynamicTypeDefinition::get(dialect, name, verifier, parser, printer)\<close>.\<close>

definition DynamicTypeDefinition_get_custom ::
  "MLIRContext \<Rightarrow> DialectPtr \<Rightarrow> string \<Rightarrow> VerifierFn \<Rightarrow> ParserFn \<Rightarrow> PrinterFn
     \<Rightarrow> Fatal + (TypeDefPtr \<times> MLIRContext)" where
  "DynamicTypeDefinition_get_custom ctx dialect nm verifier parser printer =
     (case DynamicTypeDefinition_ctor ctx dialect nm verifier parser printer of
        Inl e \<Rightarrow> Inl e
      | Inr (typeDef, ctx1) \<Rightarrow> Inr (new_DynamicTypeDefinition ctx1 typeDef))"

text \<open>
  Modelled from the spec: \<^verbatim>\<open>DynamicTypeDefinition::verify\<close>, declared in the header
  (section 3: the verify hook of a definition).  The verifier is called with the
  diagnostic factory; every message it reports becomes a diagnostic of that factory.
\<close>

definition DynamicTypeDefinition_verify ::
  "DynamicTypeDefinition \<Rightarrow> (string \<Rightarrow> Diagnostic) \<Rightarrow> Attribute list
     \<Rightarrow> LogicalResult \<times> Diagnostic list" where
  "DynamicTypeDefinition_verify td emitErr params =
     (case td_verifier td params of (r, msgs) \<Rightarrow> (r, map emitErr msgs))"

subsection \<open>The type uniquer and dynamic types\<close>

text \<open>\<^verbatim>\<open>DynamicTypeStorage::operator==\<close>.\<close>

definition DynamicTypeStorage_eq :: "DynamicTypeStorage \<Rightarrow> KeyTy \<Rightarrow> bool" where
  "DynamicTypeStorage_eq s key = (st_typeDef s = fst key \<and> st_params s = snd key)"

text \<open>
  \<^verbatim>\<open>DynamicTypeStorage::construct\<close>: a new storage in the arena, holding the definition and
  a copy of the parameters.
\<close>

definition DynamicTypeStorage_construct :: "MLIRContext \<Rightarrow> KeyTy \<Rightarrow> StoragePtr \<times> MLIRContext" where
  "DynamicTypeStorage_construct ctx key =
     (length (typeStorages ctx),
      ctx\<lparr>typeStorages := typeStorages ctx @ [\<lparr>st_typeDef = fst key, st_params = snd key\<rparr>]\<rparr>)"

text \<open>
  Modelled from the spec: \<^verbatim>\<open>detail::TypeUniquer::getWithTypeID\<close> and
  \<^verbatim>\<open>detail::TypeUniquer::registerType\<close>, the Interner of section 4.2.  On a cache hit for
  the key in the table of the kind, the existing instance is returned; on a miss a new
  instance is allocated from the arena, inserted under the key and returned.  A hit is
  decided by the structural equality of the key (\<^verbatim>\<open>operator==\<close> of the storage); the hash
  of the key only speeds the search up and is left out.
\<close>

definition lookupStorage :: "MLIRContext \<Rightarrow> TypeID \<Rightarrow> KeyTy \<Rightarrow> StoragePtr option" where
  "lookupStorage ctx tid key =
     find (\<lambda>p. case deref (typeStorages ctx) p of
                  Some s \<Rightarrow> DynamicTypeStorage_eq s key
                | None \<Rightarrow> False)
          (typeUniquer ctx tid)"

definition getWithTypeID :: "MLIRContext \<Rightarrow> TypeID \<Rightarrow> KeyTy \<Rightarrow> DynamicType \<times> MLIRContext" where
  "getWithTypeID ctx tid key =
     (case lookupStorage ctx tid key of
        Some p \<Rightarrow> (Some p, ctx)
      | None \<Rightarrow>
          (case DynamicTypeStorage_construct ctx key of
             (p, ctx1) \<Rightarrow>
               (Some p, ctx1\<lparr>typeUniquer := (typeUniquer ctx1)(tid := typeUniquer ctx1 tid @ [p])\<rparr>)))"

definition registerType :: "MLIRContext \<Rightarrow> TypeID \<Rightarrow> MLIRContext" where
  "registerType ctx tid = ctx\<lparr>uniquerKinds := tid # uniquerKinds ctx\<rparr>"

text \<open>\<^verbatim>\<open>DynamicTypeDefinition::registerInTypeUniquer\<close>.\<close>

definition registerInTypeUniquer :: "MLIRContext \<Rightarrow> DynamicTypeDefinition \<Rightarrow> MLIRContext" where
  "registerInTypeUniquer ctx td = registerType ctx (td_typeID td)"

text \<open>\<^verbatim>\<open>DynamicType::get\<close>.\<close>

definition DynamicType_get ::
  "MLIRContext \<Rightarrow> TypeDefPtr \<Rightarrow> Attribute list \<Rightarrow> Fatal + (DynamicType \<times> MLIRContext)" where
  "DynamicType_get ctx typeDef params =
     (case deref (typeDefinitions ctx) typeDef of
        None \<Rightarrow> Inl InvalidPointer
      | Some td \<Rightarrow> Inr (getWithTypeID ctx (td_typeID td) (typeDef, params)))"

text \<open>
  \<^verbatim>\<open>DynamicType::getChecked\<close>.  The result carries the diagnostics that the verifier
  reported through \<^verbatim>\<open>emitError\<close>.
\<close>

definition DynamicType_getChecked ::
  "(string \<Rightarrow> Diagnostic) \<Rightarrow> MLIRContext \<Rightarrow> TypeDefPtr \<Rightarrow> Attribute list
     \<Rightarrow> Fatal + (DynamicType \<times> Diagnostic list \<times> MLIRContext)" where
  "DynamicType_getChecked emitErr ctx typeDef params =
     (case deref (typeDefinitions ctx) typeDef of
        None \<Rightarrow> Inl InvalidPointer
      | Some td \<Rightarrow>
          (case DynamicTypeDefinition_verify td emitErr params of
             (r, diags) \<Rightarrow>
               if failed r then Inr (None, diags, ctx)
               else (case DynamicType_get ctx typeDef params of
                       Inl e \<Rightarrow> Inl e
                     | Inr (t, ctx1) \<Rightarrow> Inr (t, diags, ctx1))))"

text \<open>\<^verbatim>\<open>DynamicType::getTypeDef\<close> and \<^verbatim>\<open>DynamicType::getParams\<close>, through \<^verbatim>\<open>getImpl()\<close>.\<close>

definition getImpl :: "MLIRContext \<Rightarrow> DynamicType \<Rightarrow> Fatal + DynamicTypeStorage" where
  "getImpl ctx t =
     (case t of
        None \<Rightarrow> Inl InvalidPointer
      | Some p \<Rightarrow>
          (case deref (typeStorages ctx) p of
             None \<Rightarrow> Inl InvalidPointer
           | Some s \<Rightarrow> Inr s))"

definition getTypeDef :: "MLIRContext \<Rightarrow> DynamicType \<Rightarrow> Fatal + TypeDefPtr" where
  "getTypeDef ctx t = (case getImpl ctx t of Inl e \<Rightarrow> Inl e | Inr s \<Rightarrow> Inr (st_typeDef s))"

definition getParams :: "MLIRContext \<Rightarrow> DynamicType \<Rightarrow> Fatal + Attribute list" where
  "getParams ctx t = (case getImpl ctx t of Inl e \<Rightarrow> Inl e | Inr s \<Rightarrow> Inr (st_params s))"

text \<open>
  \<^verbatim>\<open>DynamicType::parse\<close>.  \<open>parsedType\<close> is the reference argument: it keeps its value when
  the parser hook fails.  \<^verbatim>\<open>emitError\<close> reports at the current location of the parser.
\<close>

definition DynamicType_parse ::
  "MLIRContext \<Rightarrow> DialectAsmParser \<Rightarrow> TypeDefPtr \<Rightarrow> DynamicType
     \<Rightarrow> Fatal + (ParseResult \<times> DialectAsmParser \<times> DynamicType \<times> MLIRContext)" where
  "DynamicType_parse ctx parser typeDef parsedType =
     (case deref (typeDefinitions ctx) typeDef of
        None \<Rightarrow> Inl InvalidPointer
      | Some td \<Rightarrow>
          (case td_parser td parser [] of
             (failure, parser1, params) \<Rightarrow> Inr (failure, parser1, parsedType, ctx)
           | (success, parser1, params) \<Rightarrow>
               (case DynamicType_getChecked (\<lambda>msg. (getCurrentLocation parser1, msg))
                       ctx typeDef params of
                  Inl e \<Rightarrow> Inl e
                | Inr (t, diags, ctx1) \<Rightarrow>
                    Inr (success, parser1\<lparr>diagnostics := diagnostics parser1 @ diags\<rparr>,
                         t, ctx1))))"

text \<open>
  Modelled from the spec: \<^verbatim>\<open>DynamicTypeDefinition::getName\<close>, declared in the header
  (section 3: the name of a definition, without the namespace separator).  It returns
  the name that the constructor stored.
\<close>

definition getName :: "DynamicTypeDefinition \<Rightarrow> string" where
  "getName td = td_name td"

text \<open>\<^verbatim>\<open>DynamicType::print\<close>.\<close>

definition DynamicType_print ::
  "MLIRContext \<Rightarrow> DynamicType \<Rightarrow> DialectAsmPrinter \<Rightarrow> Fatal + DialectAsmPrinter" where
  "DynamicType_print ctx t printer =
     (case getTypeDef ctx t of
        Inl e \<Rightarrow> Inl e
      | Inr typeDef \<Rightarrow>
          (case deref (typeDefinitions ctx) typeDef of
             None \<Rightarrow> Inl InvalidPointer
           | Some td \<Rightarrow>
               (case getParams ctx t of
                  Inl e \<Rightarrow> Inl e
                | Inr params \<Rightarrow>
                    Inr (td_printer td (printer @ [BareIdentifier (getName td)]) params))))"

subsection \<open>Dynamic operations\<close>

text \<open>
  Modelled from the spec: \<^verbatim>\<open>OpAsmPrinter::printGenericOp\<close> (section 4.3: the generic
  structural dump, usable for any operation value).
\<close>

definition printGenericOp :: "Operation \<Rightarrow> OpAsmPrinter \<Rightarrow> OpAsmPrinter" where
  "printGenericOp op printer = printer @ [GenericOpForm op]"

text \<open>The constructor of \<^verbatim>\<open>DynamicOpDefinition\<close>.\<close>

definition DynamicOpDefinition_ctor ::
  "MLIRContext \<Rightarrow> string \<Rightarrow> DialectPtr \<Rightarrow> VerifyInvariantsFn \<Rightarrow> ParseAssemblyFn
     \<Rightarrow> PrintAssemblyFn \<Rightarrow> Fatal + (DynamicOpDefinition \<times> MLIRContext)" where
  "DynamicOpDefinition_ctor ctx nm dialect verifyFn parseFn printFn =
     (case deref (loadedDialects ctx) dialect of
        None \<Rightarrow> Inl InvalidPointer
      | Some d \<Rightarrow>
          (case allocateTypeID ctx of
             (tid, ctx1) \<Rightarrow>
               Inr (\<lparr>op_typeID = tid, op_name = d_namespace d @ ''.'' @ nm,
                     op_dialect = dialect, op_verifyFn = verifyFn, op_parseFn = parseFn,
                     op_printFn = printFn\<rparr>, ctx1)))"

text \<open>\<^verbatim>\<open>DynamicOpDefinition::get(name, dialect, verifyFn)\<close> and its two lambdas.\<close>

definition default_parseFn :: ParseAssemblyFn where
  "default_parseFn parser result =
     (failure, emitError parser (getCurrentLocation parser)
                 ''dynamic operation do not define any parser function'')"

definition default_printFn :: PrintAssemblyFn where
  "default_printFn op printer = printGenericOp op printer"

definition DynamicOpDefinition_get ::
  "MLIRContext \<Rightarrow> string \<Rightarrow> DialectPtr \<Rightarrow> VerifyInvariantsFn
     \<Rightarrow> Fatal + (DynamicOpDefinition \<times> MLIRContext)" where
  "DynamicOpDefinition_get ctx nm dialect verifyFn =
     DynamicOpDefinition_ctor ctx nm dialect verifyFn default_parseFn default_printFn"

text \<open>\<^verbatim>\<open>DynamicOpDefinition::get(name, dialect, verifyFn, parseFn, printFn)\<close>.\<close>

definition DynamicOpDefinition_get_custom ::
  "MLIRContext \<Rightarrow> string \<Rightarrow> DialectPtr \<Rightarrow> VerifyInvariantsFn \<Rightarrow> ParseAssemblyFn
     \<Rightarrow> PrintAssemblyFn \<Rightarrow> Fatal + (DynamicOpDefinition \<times> MLIRContext)" where
  "DynamicOpDefinition_get_custom ctx nm dialect verifyFn parseFn printFn =
     (if CHR ''.'' \<in> set nm
      then Inl (AssertionFailure ''name should not be prefixed by the dialect name'')
      else DynamicOpDefinition_ctor ctx nm dialect verifyFn parseFn printFn)"

subsection \<open>Extensible dialects\<close>

text \<open>
  Modelled from the spec: the constructor of the base class \<^verbatim>\<open>Dialect\<close>,
  \<^verbatim>\<open>Dialect::addInterfaces\<close>, \<^verbatim>\<open>Dialect::getRegisteredInterface\<close> (section 4.6 and the
  glossary: a capability marker is attached to an object and later found by the query
  for it), \<^verbatim>\<open>Dialect::addType\<close> and \<^verbatim>\<open>AbstractOperation::insert\<close> (sections 4.5 and 6: the
  kind is installed into the tables of the context).
\<close>

definition Dialect_ctor :: "string \<Rightarrow> TypeID \<Rightarrow> Dialect" where
  "Dialect_ctor nm tid =
     \<lparr>d_namespace = nm, d_typeID = tid, registeredInterfaces = [],
      dynTypes = Map.empty, nameToDynTypes = Map.empty\<rparr>"

definition addInterfaces :: "Dialect \<Rightarrow> InterfaceID \<Rightarrow> Dialect" where
  "addInterfaces d i = d\<lparr>registeredInterfaces := i # registeredInterfaces d\<rparr>"

definition getRegisteredInterface :: "Dialect \<Rightarrow> InterfaceID \<Rightarrow> InterfaceID option" where
  "getRegisteredInterface d i = find (\<lambda>j. j = i) (registeredInterfaces d)"

definition addType :: "MLIRContext \<Rightarrow> TypeID \<Rightarrow> AbstractType \<Rightarrow> MLIRContext" where
  "addType ctx tid abstractType =
     ctx\<lparr>registeredTypes := (tid, abstractType) # registeredTypes ctx\<rparr>"

definition AbstractOperation_insert :: "MLIRContext \<Rightarrow> AbstractOperation \<Rightarrow> MLIRContext" where
  "AbstractOperation_insert ctx ao =
     ctx\<lparr>registeredOperations := ao # registeredOperations ctx\<rparr>"

text \<open>The constructor of \<^verbatim>\<open>ExtensibleDialect\<close>.\<close>

definition ExtensibleDialect_ctor :: "string \<Rightarrow> TypeID \<Rightarrow> Dialect" where
  "ExtensibleDialect_ctor nm tid = addInterfaces (Dialect_ctor nm tid) IsExtensibleDialect"

text \<open>
  \<^verbatim>\<open>ExtensibleDialect::addDynamicType\<close>.  \<open>this\<close> is the dialect the method is called on
  and \<open>type\<close> the definition handed over.  A failed assertion stops the program, so what
  \<^verbatim>\<open>try_emplace\<close> and \<^verbatim>\<open>insert\<close> did before it is not observed.
\<close>

definition addDynamicType :: "MLIRContext \<Rightarrow> DialectPtr \<Rightarrow> TypeDefPtr \<Rightarrow> Fatal + MLIRContext" where
  "addDynamicType ctx this type =
     (case (deref (loadedDialects ctx) this, deref (typeDefinitions ctx) type) of
        (Some d, Some td) \<Rightarrow>
          (let typePtr = type; typeID = td_typeID td; nm = getName td; dialect = td_dialect td in
           if dialect \<noteq> this
           then Inl (AssertionFailure ''trying to register a dynamic type in the wrong dialect'')
           else if dynTypes d typeID \<noteq> None
           then Inl (AssertionFailure ''generated TypeID was not unique'')
           else if nameToDynTypes d nm \<noteq> None
           then Inl (AssertionFailure
                       ''Trying to create a new dynamic type with an existing name'')
           else
             (let d1 = d\<lparr>dynTypes := (dynTypes d)(typeID \<mapsto> type),
                          nameToDynTypes := (nameToDynTypes d)(nm \<mapsto> typePtr)\<rparr>;
                  ctx1 = ctx\<lparr>loadedDialects := (loadedDialects ctx)[this := d1]\<rparr>;
                  abstractType = \<lparr>at_dialect = dialect,
                                  at_interfaceMap = [IsDynamicTypeInterface],
                                  at_typeID = typeID\<rparr>;
                  ctx2 = addType ctx1 typeID abstractType
              in Inr (registerInTypeUniquer ctx2 td)))
      | _ \<Rightarrow> Inl InvalidPointer)"

text \<open>\<^verbatim>\<open>ExtensibleDialect::addDynamicOp\<close>.\<close>

definition addDynamicOp :: "MLIRContext \<Rightarrow> DialectPtr \<Rightarrow> DynamicOpDefinition \<Rightarrow> Fatal + MLIRContext" where
  "addDynamicOp ctx this type =
     (if op_dialect type \<noteq> this
      then Inl (AssertionFailure ''trying to register a dynamic op in the wrong dialect'')
      else
        (case deref (loadedDialects ctx) (op_dialect type) of
           None \<Rightarrow> Inl InvalidPointer
         | Some _ \<Rightarrow>
             Inr (AbstractOperation_insert ctx
                    \<lparr>ao_name = op_name type, ao_dialect = op_dialect type,
                     ao_typeID = op_typeID type, ao_parseAssembly = op_parseFn type,
                     ao_printAssembly = op_printFn type,
                     ao_verifyInvariants = op_verifyFn type,
                     ao_foldHook = (\<lambda>op operands. failure),
                     ao_getCanonicalizationPatterns = (\<lambda>patterns. patterns),
                     ao_interfaceMap = [],
                     ao_hasTrait = (\<lambda>traitId. False)\<rparr>)))"

text \<open>\<^verbatim>\<open>ExtensibleDialect::classof\<close>.\<close>

definition classof :: "MLIRContext \<Rightarrow> DialectPtr \<Rightarrow> Fatal + bool" where
  "classof ctx dialect =
     (case deref (loadedDialects ctx) dialect of
        None \<Rightarrow> Inl InvalidPointer
      | Some d \<Rightarrow> Inr (getRegisteredInterface d IsExtensibleDialect \<noteq> None))"

text \<open>
  Modelled from the spec: \<^verbatim>\<open>ExtensibleDialect::lookupTypeDefinition\<close> (section 4.6: the
  name lookup local to the namespace).
\<close>

definition lookupTypeDefinition :: "Dialect \<Rightarrow> string \<Rightarrow> TypeDefPtr option" where
  "lookupTypeDefinition d typeName = nameToDynTypes d typeName"

text \<open>
  \<^verbatim>\<open>ExtensibleDialect::parseOptionalDynamicType\<close>; \<open>None\<close> is the result without a value,
  and \<open>resultType\<close> is the reference argument.
\<close>

definition parseOptionalDynamicType ::
  "MLIRContext \<Rightarrow> DialectPtr \<Rightarrow> string \<Rightarrow> DialectAsmParser \<Rightarrow> DynamicType
     \<Rightarrow> Fatal + (ParseResult option \<times> DialectAsmParser \<times> DynamicType \<times> MLIRContext)" where
  "parseOptionalDynamicType ctx this typeName parser resultType =
     (case deref (loadedDialects ctx) this of
        None \<Rightarrow> Inl InvalidPointer
      | Some d \<Rightarrow>
          (case lookupTypeDefinition d typeName of
             Some typeDef \<Rightarrow>
               (case DynamicType_parse ctx parser typeDef None of
                  Inl e \<Rightarrow> Inl e
                | Inr (failure, parser1, dynType, ctx1) \<Rightarrow>
                    Inr (Some failure, parser1, resultType, ctx1)
                | Inr (success, parser1, dynType, ctx1) \<Rightarrow>
                    Inr (Some success, parser1, dynType, ctx1))
           | None \<Rightarrow> Inr (None, parser, resultType, ctx)))"

subsection \<open>Sequences of calls and example contexts\<close>

text \<open>
  A sequence of calls of \<^verbatim>\<open>DynamicType::get\<close>, one per key, each on the context the call
  before it left; it is used to state properties that hold whatever is interned in
  between.
\<close>

fun get_sequence :: "MLIRContext \<Rightarrow> KeyTy list \<Rightarrow> Fatal + MLIRContext" where
  "get_sequence ctx [] = Inr ctx"
| "get_sequence ctx (k # ks) =
     (case DynamicType_get ctx (fst k) (snd k) of
        Inl e \<Rightarrow> Inl e
      | Inr (t, ctx1) \<Rightarrow> get_sequence ctx1 ks)"

text \<open>
  Two verifiers, and a context with the extensible dialects \<^verbatim>\<open>test\<close> and \<^verbatim>\<open>other\<close> and
  the plain dialect \<^verbatim>\<open>builtin\<close>; \<open>ex_types\<close> is that context after three calls of
  \<^verbatim>\<open>DynamicTypeDefinition::get\<close> for the dialect \<^verbatim>\<open>test\<close>: the types \<^verbatim>\<open>dyn\<close> and \<^verbatim>\<open>strict\<close>,
  and a second definition named \<^verbatim>\<open>dyn\<close>.
\<close>

definition accept_all :: VerifierFn where
  "accept_all params = (success, [])"

definition nonempty_only :: VerifierFn where
  "nonempty_only params =
     (if params = [] then (failure, [''expected at least one parameter'']) else (success, []))"

definition ex_ctx :: MLIRContext where
  "ex_ctx =
     \<lparr>typeIDAllocator = 3,
      loadedDialects = [ExtensibleDialect_ctor ''test'' 0, ExtensibleDialect_ctor ''other'' 1,
                        Dialect_ctor ''builtin'' 2],
      typeDefinitions = [], typeStorages = [], typeUniquer = (\<lambda>tid. []), uniquerKinds = [],
      registeredTypes = [], registeredOperations = []\<rparr>"

definition ex_types :: MLIRContext where
  "ex_types =
     ex_ctx\<lparr>typeIDAllocator := 6,
       typeDefinitions :=
         [\<lparr>td_name = ''dyn'', td_dialect = 0, td_verifier = accept_all,
           td_parser = default_parser, td_printer = default_printer, td_typeID = 3\<rparr>,
          \<lparr>td_name = ''strict'', td_dialect = 0, td_verifier = nonempty_only,
           td_parser = default_parser, td_printer = default_printer, td_typeID = 4\<rparr>,
          \<lparr>td_name = ''dyn'', td_dialect = 0, td_verifier = accept_all,
           td_parser = default_parser, td_printer = default_printer, td_typeID = 5\<rparr>]\<rparr>"

text \<open>\<open>ex_types\<close> after \<^verbatim>\<open>DynamicType::get\<close> has interned the type \<^verbatim>\<open>dyn\<close> without parameters.\<close>

definition ex_interned :: MLIRContext where
  "ex_interned =
     ex_types\<lparr>typeStorages := [\<lparr>st_typeDef = 0, st_params = []\<rparr>],
              typeUniquer := (\<lambda>tid. [])(3 := [0])\<rparr>"

text \<open>
  \<open>ex_types\<close> after \<^verbatim>\<open>DynamicType::get\<close> has interned the type \<^verbatim>\<open>strict\<close> without
  parameters, which its verifier rejects.
\<close>

definition ex_unchecked :: MLIRContext where
  "ex_unchecked =
     ex_types\<lparr>typeStorages := [\<lparr>st_typeDef = 1, st_params = []\<rparr>],
              typeUniquer := (\<lambda>tid. [])(4 := [0])\<rparr>"

section \<open>Properties\<close>

subsection \<open>The default parser of dynamic types\<close>

lemma interleaveComma_Cons:
  "interleaveComma (a # as) = AttrValue a # (if as = [] then [] else Comma # interleaveComma as)"
  by (cases as) auto

lemma length_interleaveComma:
  "length (interleaveComma as) = 2 * length as - 1"
  by (induction as rule: interleaveComma.induct) auto

lemma default_parser_loop_accepts:
  "input p = (if as = [] then [] else Comma # interleaveComma as) @ Greater # rest \<Longrightarrow>
   default_parser_loop p acc =
     (success, p\<lparr>input := rest, consumed := consumed p + 2 * length as + 1\<rparr>, acc @ as)"
proof (induction as arbitrary: p acc)
  case Nil
  then show ?case
    by (subst default_parser_loop.simps) (simp add: parseOptionalGreater_def advance_def)
next
  case (Cons a as)
  let ?p2 = "advance (advance p)"
  from Cons.prems have inp: "input p = Comma # AttrValue a #
      (if as = [] then [] else Comma # interleaveComma as) @ Greater # rest"
    by (simp add: interleaveComma_Cons)
  then have "input ?p2 = (if as = [] then [] else Comma # interleaveComma as) @ Greater # rest"
    by (simp add: advance_def)
  from Cons.IH[OF this, of "acc @ [a]"] inp show ?case
    by (subst default_parser_loop.simps)
       (simp add: parseOptionalGreater_def parseComma_def parseAttribute_def advance_def)
qed

lemma default_parser_loop_success:
  "default_parser_loop p acc = (success, p', ps) \<Longrightarrow>
   \<exists>as. ps = acc @ as \<and>
        input p = (if as = [] then [] else Comma # interleaveComma as) @ Greater # input p' \<and>
        diagnostics p' = diagnostics p"
proof (induction p acc rule: default_parser_loop.induct)
  case (1 p parsedParams)
  show ?case
  proof (cases "parseOptionalGreater p")
    case (Pair r1 p1)
    show ?thesis
    proof (cases r1)
      case success
      with Pair "1.prems" have "p' = p1" "ps = parsedParams"
        by (simp_all add: default_parser_loop.simps[of p])
      moreover from Pair success have "input p = Greater # input p1" "diagnostics p1 = diagnostics p"
        by (auto simp: parseOptionalGreater_def advance_def split: list.splits Token.splits)
      ultimately show ?thesis by (intro exI[of _ "[]"]) simp
    next
      case failure
      with Pair have p1: "p1 = p"
        by (auto simp: parseOptionalGreater_def split: list.splits Token.splits)
      obtain r2 p2 where c: "parseComma p1 = (r2, p2)" by (cases "parseComma p1")
      obtain ao p3 where a: "parseAttribute p2 = (ao, p3)" by (cases "parseAttribute p2")
      from "1.prems" Pair failure c a have r2: "r2 = success"
        by (cases r2) (simp_all add: default_parser_loop.simps[of p])
      from "1.prems" Pair failure c a r2 obtain attr where ao: "ao = Some attr"
        by (cases ao) (simp_all add: default_parser_loop.simps[of p])
      from "1.prems" Pair failure c a r2 ao
      have rec: "default_parser_loop p3 (parsedParams @ [attr]) = (success, p', ps)"
        by (simp add: default_parser_loop.simps[of p])
      from "1.IH"[OF Pair[symmetric] failure c[symmetric] r2 a[symmetric] ao rec]
      obtain as where as: "ps = (parsedParams @ [attr]) @ as"
        "input p3 = (if as = [] then [] else Comma # interleaveComma as) @ Greater # input p'"
        "diagnostics p' = diagnostics p3" by blast
      from c r2 p1 have i2: "input p = Comma # input p2" "diagnostics p2 = diagnostics p"
        by (auto simp: parseComma_def advance_def split: list.splits Token.splits)
      from a ao have i3: "input p2 = AttrValue attr # input p3" "diagnostics p3 = diagnostics p2"
        by (auto simp: parseAttribute_def advance_def split: list.splits Token.splits)
      show ?thesis
        using as i2 i3 by (intro exI[of _ "attr # as"]) (simp add: interleaveComma_Cons)
    qed
  qed
qed

lemma default_parser_loop_failure:
  "default_parser_loop p acc = (failure, p', ps) \<Longrightarrow>
   \<exists>l m. diagnostics p' = diagnostics p @ [(l, m)] \<and> m \<noteq> []"
proof (induction p acc rule: default_parser_loop.induct)
  case (1 p parsedParams)
  obtain r1 p1 where g: "parseOptionalGreater p = (r1, p1)" by (cases "parseOptionalGreater p")
  from "1.prems" g have r1: "r1 = failure"
    by (cases r1) (simp_all add: default_parser_loop.simps[of p])
  with g have p1: "p1 = p"
    by (auto simp: parseOptionalGreater_def split: list.splits Token.splits)
  obtain r2 p2 where c: "parseComma p1 = (r2, p2)" by (cases "parseComma p1")
  obtain ao p3 where a: "parseAttribute p2 = (ao, p3)" by (cases "parseAttribute p2")
  show ?case
  proof (cases r2)
    case failure
    with "1.prems" g r1 c have "p' = p2" by (simp add: default_parser_loop.simps[of p])
    with c failure p1 show ?thesis
      by (auto simp: parseComma_def emitError_def split: list.splits Token.splits)
  next
    case success
    with c p1 have d2: "diagnostics p2 = diagnostics p"
      by (auto simp: parseComma_def advance_def split: list.splits Token.splits)
    show ?thesis
    proof (cases ao)
      case None
      with "1.prems" g r1 c success a have "p' = p3" by (simp add: default_parser_loop.simps[of p])
      with a None d2 show ?thesis
        by (auto simp: parseAttribute_def emitError_def split: list.splits Token.splits)
    next
      case (Some attr)
      with "1.prems" g r1 c success a
      have rec: "default_parser_loop p3 (parsedParams @ [attr]) = (failure, p', ps)"
        by (simp add: default_parser_loop.simps[of p])
      from a Some have "diagnostics p3 = diagnostics p2"
        by (auto simp: parseAttribute_def advance_def split: list.splits Token.splits)
      with "1.IH"[OF g[symmetric] r1 c[symmetric] success a[symmetric] Some rec] d2
      show ?thesis by simp
    qed
  qed
qed

lemma default_parser_no_less:
  "\<forall>rest. input p \<noteq> Less # rest \<Longrightarrow> default_parser p ps = (success, p, ps)"
  by (auto simp: default_parser_def parseOptionalLess_def split: list.splits Token.splits)

lemma default_parser_less_greater:
  "input p = Less # Greater # rest \<Longrightarrow>
   default_parser p ps = (success, p\<lparr>input := rest, consumed := consumed p + 2\<rparr>, ps)"
  by (simp add: default_parser_def parseOptionalLess_def parseOptionalGreater_def advance_def)

lemma default_parser_accepts:
  assumes "as \<noteq> []" and "input p = Less # interleaveComma as @ Greater # rest"
  shows "default_parser p ps =
           (success, p\<lparr>input := rest, consumed := consumed p + 2 * length as + 1\<rparr>, ps @ as)"
proof -
  from assms(1) obtain a as' where as: "as = a # as'" by (cases as) auto
  let ?p2 = "advance (advance p)"
  from assms(2) as have inp: "input p = Less # AttrValue a #
      (if as' = [] then [] else Comma # interleaveComma as') @ Greater # rest"
    by (simp add: interleaveComma_Cons)
  then have "input ?p2 = (if as' = [] then [] else Comma # interleaveComma as') @ Greater # rest"
    by (simp add: advance_def)
  from default_parser_loop_accepts[OF this, of "ps @ [a]"] inp as show ?thesis
    by (simp add: default_parser_def parseOptionalLess_def parseOptionalGreater_def
        parseAttribute_def advance_def)
qed

lemma default_parser_less_other:
  assumes "input p = Less # toks" and "\<forall>rest. toks \<noteq> Greater # rest"
    and "default_parser p ps = (r, p', ps')"
  shows "(r = success \<and> (\<exists>as. as \<noteq> [] \<and> ps' = ps @ as \<and>
                              toks = interleaveComma as @ Greater # input p')) \<or>
         (r = failure \<and> (\<exists>l m. m \<noteq> [] \<and> diagnostics p' = diagnostics p @ [(l, m)]))"
proof -
  let ?p1 = "advance p"
  from assms(1) have l: "parseOptionalLess p = (success, ?p1)"
    by (simp add: parseOptionalLess_def)
  from assms(1,2) have g: "parseOptionalGreater ?p1 = (failure, ?p1)"
    by (auto simp: parseOptionalGreater_def advance_def split: list.splits Token.splits)
  obtain ao p3 where a: "parseAttribute ?p1 = (ao, p3)" by (cases "parseAttribute ?p1")
  show ?thesis
  proof (cases ao)
    case None
    with assms(3) l g a have "r = failure" "p' = p3"
      by (simp_all add: default_parser_def)
    moreover from a None have "\<exists>l m. m \<noteq> [] \<and> diagnostics p3 = diagnostics p @ [(l, m)]"
      by (auto simp: parseAttribute_def emitError_def advance_def split: list.splits Token.splits)
    ultimately show ?thesis by simp
  next
    case (Some attr)
    with assms(3) l g a have rec: "default_parser_loop p3 (ps @ [attr]) = (r, p', ps')"
      by (simp add: default_parser_def)
    from a Some assms(1) have t: "toks = AttrValue attr # input p3" "diagnostics p3 = diagnostics p"
      by (auto simp: parseAttribute_def advance_def split: list.splits Token.splits)
    show ?thesis
    proof (cases r)
      case success
      from default_parser_loop_success[OF rec[unfolded success]]
      obtain as where "ps' = (ps @ [attr]) @ as"
        "input p3 = (if as = [] then [] else Comma # interleaveComma as) @ Greater # input p'"
        by blast
      with t success show ?thesis
        by (intro disjI1 conjI exI[of _ "attr # as"]) (simp_all add: interleaveComma_Cons)
    next
      case failure
      from default_parser_loop_failure[OF rec[unfolded failure]] t failure
      show ?thesis by auto
    qed
  qed
qed

text \<open>
  Claim C4, amended.  The default parse hook succeeds and appends nothing when the next
  token is not \<^verbatim>\<open><\<close>, and also when \<^verbatim>\<open><\<close> is directly followed by \<^verbatim>\<open>>\<close>.  Otherwise it
  succeeds exactly on a comma-separated sequence of at least one attribute value closed
  by \<^verbatim>\<open>>\<close>, appending these values in order and consuming the text up to the \<^verbatim>\<open>>\<close>; and
  when it fails, the primitive that failed has reported one diagnostic.
\<close>

theorem default_parser_spec:
  "((\<forall>rest. input p \<noteq> Less # rest) \<longrightarrow> default_parser p ps = (success, p, ps)) \<and>
   (\<forall>rest. input p = Less # Greater # rest \<longrightarrow>
      default_parser p ps = (success, p\<lparr>input := rest, consumed := consumed p + 2\<rparr>, ps)) \<and>
   (\<forall>as rest. as \<noteq> [] \<and> input p = Less # interleaveComma as @ Greater # rest \<longrightarrow>
      default_parser p ps =
        (success, p\<lparr>input := rest, consumed := consumed p + 2 * length as + 1\<rparr>, ps @ as)) \<and>
   (\<forall>toks r p' ps'. input p = Less # toks \<and> (\<forall>rest. toks \<noteq> Greater # rest) \<and>
      default_parser p ps = (r, p', ps') \<longrightarrow>
        (r = success \<and> (\<exists>as. as \<noteq> [] \<and> ps' = ps @ as \<and>
                            toks = interleaveComma as @ Greater # input p')) \<or>
        (r = failure \<and> (\<exists>l m. m \<noteq> [] \<and> diagnostics p' = diagnostics p @ [(l, m)])))"
proof (intro conjI allI impI)
  assume "\<forall>rest. input p \<noteq> Less # rest"
  then show "default_parser p ps = (success, p, ps)" by (rule default_parser_no_less)
next
  fix rest assume "input p = Less # Greater # rest"
  then show "default_parser p ps = (success, p\<lparr>input := rest, consumed := consumed p + 2\<rparr>, ps)"
    by (rule default_parser_less_greater)
next
  fix as rest assume "as \<noteq> [] \<and> input p = Less # interleaveComma as @ Greater # rest"
  then show "default_parser p ps =
        (success, p\<lparr>input := rest, consumed := consumed p + 2 * length as + 1\<rparr>, ps @ as)"
    using default_parser_accepts by blast
next
  fix toks r p' ps'
  assume "input p = Less # toks \<and> (\<forall>rest. toks \<noteq> Greater # rest) \<and>
      default_parser p ps = (r, p', ps')"
  then show "(r = success \<and> (\<exists>as. as \<noteq> [] \<and> ps' = ps @ as \<and>
                            toks = interleaveComma as @ Greater # input p')) \<or>
        (r = failure \<and> (\<exists>l m. m \<noteq> [] \<and> diagnostics p' = diagnostics p @ [(l, m)]))"
    using default_parser_less_other[of p toks ps r p' ps'] by blast
qed

text \<open>
  Claim C4 as stated fails on the text \<^verbatim>\<open><>\<close>: the next token is \<^verbatim>\<open><\<close>, and the hook
  succeeds without having parsed a single attribute value (the branch commented
  \<^verbatim>\<open>// No parameters\<close> in the source).
\<close>

theorem default_parser_empty_brackets:
  "default_parser \<lparr>input = [Less, Greater], consumed = 0, diagnostics = []\<rparr> [] =
     (success, \<lparr>input = [], consumed = 2, diagnostics = []\<rparr>, [])"
  by (simp add: default_parser_def parseOptionalLess_def parseOptionalGreater_def advance_def)

text \<open>
  The characterisation of claim C4 at three texts: a text that does not begin with
  \<^verbatim>\<open><\<close>, the text \<^verbatim>\<open><>\<close> followed by more input, and \<^verbatim>\<open><1, 2, 3>\<close>.
\<close>

theorem default_parser_spec_witness:
  "default_parser \<lparr>input = [BareIdentifier ''x''], consumed = 0, diagnostics = []\<rparr> [] =
     (success, \<lparr>input = [BareIdentifier ''x''], consumed = 0, diagnostics = []\<rparr>, []) \<and>
   default_parser \<lparr>input = [Less, Greater, Comma], consumed = 0, diagnostics = []\<rparr> [] =
     (success, \<lparr>input = [Comma], consumed = 2, diagnostics = []\<rparr>, []) \<and>
   default_parser
     \<lparr>input = [Less, AttrValue 1, Comma, AttrValue 2, Comma, AttrValue 3, Greater],
      consumed = 0, diagnostics = []\<rparr> [] =
     (success, \<lparr>input = [], consumed = 7, diagnostics = []\<rparr>, [1, 2, 3])"
proof -
  let ?p1 = "\<lparr>input = [BareIdentifier ''x''], consumed = 0, diagnostics = []\<rparr>"
  let ?p2 = "\<lparr>input = [Less, Greater, Comma], consumed = 0, diagnostics = []\<rparr>"
  let ?p3 = "\<lparr>input = [Less, AttrValue 1, Comma, AttrValue 2, Comma, AttrValue 3, Greater],
      consumed = 0, diagnostics = []\<rparr>"
  have a: "\<forall>rest. input ?p1 \<noteq> Less # rest" by simp
  have b: "input ?p2 = Less # Greater # [Comma]" by simp
  have c: "[1, 2, 3] \<noteq> ([] :: Attribute list) \<and>
           input ?p3 = Less # interleaveComma [1, 2, 3] @ Greater # []" by simp
  from default_parser_spec[of ?p1 "[]"] a
  have 1: "default_parser ?p1 [] = (success, ?p1, [])" by blast
  from default_parser_spec[of ?p2 "[]"] b
  have 2: "default_parser ?p2 [] = (success, ?p2\<lparr>input := [Comma], consumed := consumed ?p2 + 2\<rparr>, [])"
    by blast
  from default_parser_spec[of ?p3 "[]"] c
  have 3: "default_parser ?p3 [] =
      (success, ?p3\<lparr>input := [], consumed := consumed ?p3 + 2 * length [1, 2, 3 :: Attribute] + 1\<rparr>,
       [] @ [1, 2, 3])"
    by blast
  from 1 2 3 show ?thesis by simp
qed

subsection \<open>The interner\<close>

lemma deref_append:
  "deref (xs @ [x]) q = (if q = length xs then Some x else deref xs q)"
  by (auto simp: deref_def nth_append)

lemma find_append_new:
  "P n \<Longrightarrow> \<forall>q\<in>set xs. P q \<longrightarrow> q = n \<Longrightarrow> find P (xs @ [n]) = Some n"
  by (induction xs) auto

lemma find_append_old:
  "find P xs = Some p \<Longrightarrow> find P (xs @ ys) = Some p"
  by (induction xs) (auto split: if_splits)

lemma lookupStorage_matches:
  "lookupStorage ctx tid key = Some p \<Longrightarrow>
   \<exists>s. deref (typeStorages ctx) p = Some s \<and> DynamicTypeStorage_eq s key"
  by (auto simp: lookupStorage_def find_Some_iff split: option.splits)

lemma lookupStorage_same_pointer:
  assumes "lookupStorage ctx tid1 k1 = Some p" and "lookupStorage ctx tid2 k2 = Some p"
  shows "k1 = k2"
  using lookupStorage_matches[OF assms(1)] lookupStorage_matches[OF assms(2)]
  by (auto simp: DynamicTypeStorage_eq_def prod_eq_iff)

lemma getWithTypeID_canonical:
  assumes "getWithTypeID ctx tid key = (t, ctx1)"
  shows "\<exists>p. t = Some p \<and> lookupStorage ctx1 tid key = Some p \<and>
             typeDefinitions ctx1 = typeDefinitions ctx"
proof (cases "lookupStorage ctx tid key")
  case (Some p)
  with assms have "t = Some p" "ctx1 = ctx" by (simp_all add: getWithTypeID_def)
  with Some show ?thesis by simp
next
  case None
  let ?n = "length (typeStorages ctx)"
  let ?P = "\<lambda>st p. case deref st p of Some s \<Rightarrow> DynamicTypeStorage_eq s key | None \<Rightarrow> False"
  let ?new = "\<lparr>st_typeDef = fst key, st_params = snd key\<rparr>"
  from None have miss: "\<forall>q\<in>set (typeUniquer ctx tid). \<not> ?P (typeStorages ctx) q"
    by (simp add: lookupStorage_def find_None_iff)
  have new: "?P (typeStorages ctx @ [?new]) ?n"
    by (simp add: deref_append DynamicTypeStorage_eq_def)
  have "\<forall>q\<in>set (typeUniquer ctx tid). ?P (typeStorages ctx @ [?new]) q \<longrightarrow> q = ?n"
    using miss by (auto simp: deref_append)
  from find_append_new[of "?P (typeStorages ctx @ [?new])", OF new this]
  have fnd: "find (?P (typeStorages ctx @ [?new])) (typeUniquer ctx tid @ [?n]) = Some ?n" .
  from None assms have t: "t = Some ?n"
    and ctx1: "ctx1 = ctx\<lparr>typeStorages := typeStorages ctx @ [?new],
      typeUniquer := (typeUniquer ctx)(tid := typeUniquer ctx tid @ [?n])\<rparr>"
    by (auto simp: getWithTypeID_def DynamicTypeStorage_construct_def)
  have "lookupStorage ctx1 tid key = Some ?n"
    unfolding ctx1 lookupStorage_def using fnd by simp
  with t ctx1 show ?thesis by simp
qed

lemma getWithTypeID_hit:
  "lookupStorage ctx tid key = Some p \<Longrightarrow> getWithTypeID ctx tid key = (Some p, ctx)"
  by (simp add: getWithTypeID_def)

lemma getWithTypeID_preserves:
  assumes can: "lookupStorage ctx tid key = Some p"
    and get: "getWithTypeID ctx tid' key' = (t, ctx1)"
    and diff: "key' = key \<longrightarrow> tid' = tid"
  shows "lookupStorage ctx1 tid key = Some p"
proof (cases "lookupStorage ctx tid' key'")
  case (Some q)
  with get have "ctx1 = ctx" by (simp add: getWithTypeID_def)
  with can show ?thesis by simp
next
  case None
  with can diff have ne: "key' \<noteq> key" by auto
  let ?n = "length (typeStorages ctx)"
  let ?P = "\<lambda>st p. case deref st p of Some s \<Rightarrow> DynamicTypeStorage_eq s key | None \<Rightarrow> False"
  let ?new = "\<lparr>st_typeDef = fst key', st_params = snd key'\<rparr>"
  have "?P (typeStorages ctx @ [?new]) q = ?P (typeStorages ctx) q" for q
  proof (cases "q = ?n")
    case True
    have "deref (typeStorages ctx) ?n = None" by (simp add: deref_def)
    with True ne show ?thesis
      by (auto simp: deref_append DynamicTypeStorage_eq_def prod_eq_iff)
  next
    case False
    then show ?thesis by (simp add: deref_append)
  qed
  then have same: "?P (typeStorages ctx @ [?new]) = ?P (typeStorages ctx)"
    by (simp add: fun_eq_iff)
  from can have f: "find (?P (typeStorages ctx)) (typeUniquer ctx tid) = Some p"
    by (simp add: lookupStorage_def)
  from None get have ctx1: "ctx1 = ctx\<lparr>typeStorages := typeStorages ctx @ [?new],
      typeUniquer := (typeUniquer ctx)(tid' := typeUniquer ctx tid' @ [?n])\<rparr>"
    by (auto simp: getWithTypeID_def DynamicTypeStorage_construct_def)
  show ?thesis
  proof (cases "tid = tid'")
    case True
    with find_append_old[OF f, of "[?n]"] show ?thesis
      by (simp add: ctx1 lookupStorage_def same)
  next
    case False
    with f show ?thesis
      by (simp add: ctx1 lookupStorage_def same)
  qed
qed

lemma DynamicType_get_canonical:
  assumes "DynamicType_get ctx D P = Inr (t, ctx1)"
  shows "\<exists>p td. t = Some p \<and> deref (typeDefinitions ctx) D = Some td \<and>
           lookupStorage ctx1 (td_typeID td) (D, P) = Some p \<and>
           typeDefinitions ctx1 = typeDefinitions ctx"
proof -
  from assms obtain td where td: "deref (typeDefinitions ctx) D = Some td"
    and g: "getWithTypeID ctx (td_typeID td) (D, P) = (t, ctx1)"
    by (auto simp: DynamicType_get_def split: option.splits)
  from getWithTypeID_canonical[OF g] td show ?thesis by auto
qed

lemma DynamicType_get_preserves:
  assumes can: "lookupStorage ctx (td_typeID td) (D, P) = Some p"
    and td: "deref (typeDefinitions ctx) D = Some td"
    and get: "DynamicType_get ctx D' P' = Inr (t, ctx1)"
  shows "lookupStorage ctx1 (td_typeID td) (D, P) = Some p \<and>
         typeDefinitions ctx1 = typeDefinitions ctx"
proof -
  from get obtain td' where td': "deref (typeDefinitions ctx) D' = Some td'"
    and g: "getWithTypeID ctx (td_typeID td') (D', P') = (t, ctx1)"
    by (auto simp: DynamicType_get_def split: option.splits)
  from td td' have "(D', P') = (D, P) \<longrightarrow> td_typeID td' = td_typeID td" by auto
  from getWithTypeID_preserves[OF can g this] getWithTypeID_canonical[OF g]
  show ?thesis by auto
qed

lemma get_sequence_preserves:
  assumes "lookupStorage ctx (td_typeID td) (D, P) = Some p"
    and "deref (typeDefinitions ctx) D = Some td"
    and "get_sequence ctx ks = Inr ctx2"
  shows "lookupStorage ctx2 (td_typeID td) (D, P) = Some p \<and>
         typeDefinitions ctx2 = typeDefinitions ctx"
  using assms
proof (induction ks arbitrary: ctx)
  case Nil
  then show ?case by simp
next
  case (Cons k ks)
  from Cons.prems(3) obtain t ctx1 where g: "DynamicType_get ctx (fst k) (snd k) = Inr (t, ctx1)"
    and rest: "get_sequence ctx1 ks = Inr ctx2"
    by (auto split: sum.splits)
  from DynamicType_get_preserves[OF Cons.prems(1,2) g]
  have 1: "lookupStorage ctx1 (td_typeID td) (D, P) = Some p"
    and 2: "typeDefinitions ctx1 = typeDefinitions ctx" by auto
  from Cons.prems(2) 2 have 3: "deref (typeDefinitions ctx1) D = Some td" by simp
  from Cons.IH[OF 1 3 rest] 2 show ?case by simp
qed

text \<open>
  Claim C1.  Take a call \<^verbatim>\<open>DynamicType::get(D1, P1)\<close>, then any sequence of further calls
  of \<^verbatim>\<open>get\<close>, then a call \<^verbatim>\<open>DynamicType::get(D2, P2)\<close>.  The two calls return the same
  instance (the same storage pointer) if and only if \<^verbatim>\<open>D1 == D2\<close> and the parameter lists
  are equal element by element; and both instances are non-null.
\<close>

theorem DynamicType_get_unique:
  assumes g1: "DynamicType_get ctx D1 P1 = Inr (t1, ctx1)"
    and seq: "get_sequence ctx1 ks = Inr ctx2"
    and g2: "DynamicType_get ctx2 D2 P2 = Inr (t2, ctx3)"
  shows "(t1 = t2 \<longleftrightarrow> D1 = D2 \<and> P1 = P2) \<and> t1 \<noteq> None \<and> t2 \<noteq> None"
proof -
  from DynamicType_get_canonical[OF g1] obtain p1 td1 where t1: "t1 = Some p1"
    and td1: "deref (typeDefinitions ctx) D1 = Some td1"
    and c1: "lookupStorage ctx1 (td_typeID td1) (D1, P1) = Some p1"
    and d1: "typeDefinitions ctx1 = typeDefinitions ctx" by blast
  from td1 d1 have td1': "deref (typeDefinitions ctx1) D1 = Some td1" by simp
  from get_sequence_preserves[OF c1 td1' seq]
  have c2: "lookupStorage ctx2 (td_typeID td1) (D1, P1) = Some p1"
    and d2: "typeDefinitions ctx2 = typeDefinitions ctx1" by auto
  from td1' d2 have td1'': "deref (typeDefinitions ctx2) D1 = Some td1" by simp
  from DynamicType_get_canonical[OF g2] obtain p2 td2 where t2: "t2 = Some p2"
    and td2: "deref (typeDefinitions ctx2) D2 = Some td2"
    and c3: "lookupStorage ctx3 (td_typeID td2) (D2, P2) = Some p2" by blast
  from DynamicType_get_preserves[OF c2 td1'' g2]
  have c3': "lookupStorage ctx3 (td_typeID td1) (D1, P1) = Some p1" by simp
  have "p1 = p2 \<longleftrightarrow> D1 = D2 \<and> P1 = P2"
  proof
    assume "p1 = p2"
    with lookupStorage_same_pointer[OF c3' c3[folded \<open>p1 = p2\<close>]] show "D1 = D2 \<and> P1 = P2"
      by simp
  next
    assume eq: "D1 = D2 \<and> P1 = P2"
    with td1'' td2 have "td2 = td1" by simp
    with g2 td2 eq have "getWithTypeID ctx2 (td_typeID td1) (D1, P1) = (t2, ctx3)"
      by (simp add: DynamicType_get_def)
    with getWithTypeID_hit[OF c2] t2 show "p1 = p2" by simp
  qed
  with t1 t2 show ?thesis by simp
qed

text \<open>The definitions that evaluate the uniquer on the example contexts.\<close>

lemmas ex_defs = ex_types_def ex_ctx_def DynamicType_get_def getWithTypeID_def
  lookupStorage_def DynamicTypeStorage_construct_def DynamicTypeStorage_eq_def deref_def

text \<open>
  Claim C1 on \<open>ex_types\<close>: \<^verbatim>\<open>dyn<7, 8>\<close> is interned, then \<^verbatim>\<open>strict<7, 8>\<close> and
  \<^verbatim>\<open>dyn<8, 7>\<close>; a second request for \<^verbatim>\<open>dyn<7, 8>\<close> returns the first instance, and the
  requests that differ in the definition or in the order of the parameters return
  other instances.
\<close>

theorem DynamicType_get_unique_witness:
  "\<exists>c1 c2 c3 c4 c5.
     DynamicType_get ex_types 0 [7, 8] = Inr (Some 0, c1) \<and>
     get_sequence c1 [(1, [7, 8]), (0, [8, 7])] = Inr c2 \<and>
     DynamicType_get c2 0 [7, 8] = Inr (Some 0, c3) \<and>
     DynamicType_get c2 1 [7, 8] = Inr (Some 1, c4) \<and>
     DynamicType_get c2 0 [8, 7] = Inr (Some 2, c5)"
proof -
  define c1 where "c1 = snd (projr (DynamicType_get ex_types 0 [7, 8]))"
  define c2 where "c2 = projr (get_sequence c1 [(1, [7, 8]), (0, [8, 7])])"
  define t3 where "t3 = fst (projr (DynamicType_get c2 0 [7, 8]))"
  define c3 where "c3 = snd (projr (DynamicType_get c2 0 [7, 8]))"
  have e1: "DynamicType_get ex_types 0 [7, 8] = Inr (Some 0, c1)"
    unfolding c1_def by (simp add: ex_defs)
  have e2: "get_sequence c1 [(1, [7, 8]), (0, [8, 7])] = Inr c2"
    unfolding c2_def c1_def by (simp add: ex_defs)
  have e3: "DynamicType_get c2 0 [7, 8] = Inr (t3, c3)"
    unfolding t3_def c3_def c2_def c1_def by (simp add: ex_defs)
  from DynamicType_get_unique[OF e1 e2 e3] have "t3 = Some 0" by simp
  with e3 have 3: "DynamicType_get c2 0 [7, 8] = Inr (Some 0, c3)" by simp
  have 4: "\<exists>c4. DynamicType_get c2 1 [7, 8] = Inr (Some 1, c4)"
    unfolding c2_def c1_def by (simp add: ex_defs)
  have 5: "\<exists>c5. DynamicType_get c2 0 [8, 7] = Inr (Some 2, c5)"
    unfolding c2_def c1_def by (simp add: ex_defs)
  from e1 e2 3 4 5 show ?thesis by blast
qed

text \<open>
  The example contexts are what the code builds from \<open>ex_ctx\<close>.
\<close>

lemma ex_types_built:
  "(case DynamicTypeDefinition_get ex_ctx 0 ''dyn'' accept_all of
      Inl e \<Rightarrow> Inl e
    | Inr (p0, c0) \<Rightarrow>
        (case DynamicTypeDefinition_get c0 0 ''strict'' nonempty_only of
           Inl e \<Rightarrow> Inl e
         | Inr (p1, c1) \<Rightarrow>
             (case DynamicTypeDefinition_get c1 0 ''dyn'' accept_all of
                Inl e \<Rightarrow> Inl e
              | Inr (p2, c2) \<Rightarrow> Inr ([p0, p1, p2], c2)))) =
   Inr ([0, 1, 2], ex_types)"
  by (simp add: DynamicTypeDefinition_get_def DynamicTypeDefinition_ctor_def
      new_DynamicTypeDefinition_def allocateTypeID_def ex_types_def ex_ctx_def deref_def)

lemma ex_interned_built: "DynamicType_get ex_types 0 [] = Inr (Some 0, ex_interned)"
  by (simp add: ex_interned_def ex_defs)

text \<open>
  The definitions that evaluate the registration functions on the example contexts.
\<close>

lemmas ex_dialect_defs = ex_types_def ex_ctx_def deref_def ExtensibleDialect_ctor_def
  Dialect_ctor_def addInterfaces_def

lemmas addDynamicType_defs = addDynamicType_def getName_def registerInTypeUniquer_def
  registerType_def addType_def

subsection \<open>Checked construction and parsing\<close>

lemma DynamicType_get_total:
  assumes "deref (typeDefinitions ctx) D = Some td"
  shows "\<exists>p ctx1. DynamicType_get ctx D P = Inr (Some p, ctx1)"
proof -
  obtain t ctx1 where g: "getWithTypeID ctx (td_typeID td) (D, P) = (t, ctx1)"
    by (cases "getWithTypeID ctx (td_typeID td) (D, P)")
  from getWithTypeID_canonical[OF g] g assms show ?thesis
    by (auto simp: DynamicType_get_def)
qed

text \<open>
  Claim C2.  When the verifier of the definition rejects \<open>P\<close>, \<^verbatim>\<open>getChecked\<close> returns
  the null type together with the diagnostics of the verifier, and the context it leaves
  is the context it was given: nothing is inserted into the interner, and the entry
  looked up for \<open>(D, P)\<close> is what it was.  Every later \<^verbatim>\<open>getChecked\<close> for the same
  definition and a parameter list \<open>P'\<close> that the verifier accepts returns a non-null
  instance, the one that \<^verbatim>\<open>get\<close> returns without the earlier failed call.
\<close>

theorem getChecked_gating:
  assumes td: "deref (typeDefinitions ctx) D = Some td"
    and rej: "failed (fst (td_verifier td P))"
  shows "\<exists>ctx1. DynamicType_getChecked emitErr ctx D P =
             Inr (None, map emitErr (snd (td_verifier td P)), ctx1) \<and>
           ctx1 = ctx \<and>
           lookupStorage ctx1 (td_typeID td) (D, P) = lookupStorage ctx (td_typeID td) (D, P) \<and>
           (\<forall>P' emitErr'. succeeded (fst (td_verifier td P')) \<longrightarrow>
              (\<exists>p ctx2. DynamicType_getChecked emitErr' ctx1 D P' =
                          Inr (Some p, map emitErr' (snd (td_verifier td P')), ctx2) \<and>
                        DynamicType_get ctx D P' = Inr (Some p, ctx2)))"
proof -
  from td rej have 1: "DynamicType_getChecked emitErr ctx D P =
             Inr (None, map emitErr (snd (td_verifier td P)), ctx)"
    by (cases "td_verifier td P")
       (simp add: DynamicType_getChecked_def DynamicTypeDefinition_verify_def)
  have 2: "\<exists>p ctx2. DynamicType_getChecked emitErr' ctx D P' =
                          Inr (Some p, map emitErr' (snd (td_verifier td P')), ctx2) \<and>
                        DynamicType_get ctx D P' = Inr (Some p, ctx2)"
    if acc: "succeeded (fst (td_verifier td P'))" for P' emitErr'
  proof -
    from DynamicType_get_total[OF td, of P'] obtain p ctx2
      where g: "DynamicType_get ctx D P' = Inr (Some p, ctx2)" by blast
    from acc have "\<not> failed (fst (td_verifier td P'))"
      by (simp add: failed_def succeeded_def)
    with td g have "DynamicType_getChecked emitErr' ctx D P' =
                       Inr (Some p, map emitErr' (snd (td_verifier td P')), ctx2)"
      by (cases "td_verifier td P'")
         (simp add: DynamicType_getChecked_def DynamicTypeDefinition_verify_def)
    with g show ?thesis by blast
  qed
  from 1 2 show ?thesis by simp
qed

text \<open>
  Claim C2 on \<open>ex_types\<close>: the verifier of \<^verbatim>\<open>strict\<close> rejects the empty parameter list
  and accepts \<^verbatim>\<open><7>\<close>.
\<close>

theorem getChecked_gating_witness:
  "DynamicType_getChecked (Pair 0) ex_types 1 [] =
     Inr (None, [(0, ''expected at least one parameter'')], ex_types) \<and>
   (\<exists>ctx2. DynamicType_getChecked (Pair 0) ex_types 1 [7] = Inr (Some 0, [], ctx2) \<and>
           DynamicType_get ex_types 1 [7] = Inr (Some 0, ctx2))"
proof -
  have td: "deref (typeDefinitions ex_types) 1 =
      Some \<lparr>td_name = ''strict'', td_dialect = 0, td_verifier = nonempty_only,
           td_parser = default_parser, td_printer = default_printer, td_typeID = 4\<rparr>"
    by (simp add: ex_types_def ex_ctx_def deref_def)
  have rej: "failed (fst (nonempty_only []))" by (simp add: nonempty_only_def failed_def)
  have acc: "succeeded (fst (nonempty_only [7]))" by (simp add: nonempty_only_def succeeded_def)
  have g: "\<exists>ctx2. DynamicType_get ex_types 1 [7] = Inr (Some 0, ctx2)"
    by (simp add: ex_defs)
  from getChecked_gating[OF td, of "[]" "Pair 0"] rej
  have 1: "DynamicType_getChecked (Pair 0) ex_types 1 [] =
             Inr (None, map (Pair 0) (snd (nonempty_only [])), ex_types)"
    and 2: "\<forall>P' emitErr'. succeeded (fst (nonempty_only P')) \<longrightarrow>
              (\<exists>p ctx2. DynamicType_getChecked emitErr' ex_types 1 P' =
                          Inr (Some p, map emitErr' (snd (nonempty_only P')), ctx2) \<and>
                        DynamicType_get ex_types 1 P' = Inr (Some p, ctx2))"
    by auto
  from 2 acc obtain p ctx2 where
    3: "DynamicType_getChecked (Pair 0) ex_types 1 [7] =
          Inr (Some p, map (Pair 0) (snd (nonempty_only [7])), ctx2)"
    and 4: "DynamicType_get ex_types 1 [7] = Inr (Some p, ctx2)" by blast
  from g 4 have "p = 0" by auto
  with 1 3 4 show ?thesis by (auto simp: nonempty_only_def)
qed

text \<open>
  Claim C3 fails on the code.  The parse hook of \<^verbatim>\<open>strict\<close> succeeds on the empty text
  with no parameters, the verifier rejects them and reports its diagnostic, and
  \<^verbatim>\<open>DynamicType::parse\<close> still returns \<open>success\<close>, with the null type as the parsed type:
  the result of \<^verbatim>\<open>getChecked\<close> is assigned and never tested.
\<close>

theorem DynamicType_parse_verify_failure:
  "DynamicType_parse ex_types \<lparr>input = [], consumed = 0, diagnostics = []\<rparr> 1 None =
     Inr (success,
          \<lparr>input = [], consumed = 0, diagnostics = [(0, ''expected at least one parameter'')]\<rparr>,
          None, ex_types)"
  by (simp add: DynamicType_parse_def DynamicType_getChecked_def DynamicTypeDefinition_verify_def
      ex_types_def ex_ctx_def deref_def default_parser_def parseOptionalLess_def
      nonempty_only_def failed_def getCurrentLocation_def)

text \<open>
  The result of \<^verbatim>\<open>DynamicType::parse\<close> is always the result of the parse hook, whatever
  the verifier says.
\<close>

lemma DynamicType_parse_result:
  assumes "deref (typeDefinitions ctx) D = Some td"
    and "DynamicType_parse ctx parser D parsedType = Inr (r, parser1, t, ctx1)"
  shows "r = fst (td_parser td parser [])"
  using assms
  by (auto simp: DynamicType_parse_def split: prod.splits LogicalResult.splits sum.splits)

lemma default_parser_printed:
  "default_parser \<lparr>input = (if ps = [] then [] else Less # interleaveComma ps @ [Greater]),
                   consumed = n, diagnostics = ds\<rparr> [] =
     (success, \<lparr>input = [], consumed = n + length (if ps = [] then [] else Less # interleaveComma ps @ [Greater]),
                diagnostics = ds\<rparr>, ps)"
proof (cases "ps = []")
  case True
  then show ?thesis
    by (simp add: default_parser_def parseOptionalLess_def)
next
  case False
  let ?p = "\<lparr>input = Less # interleaveComma ps @ [Greater], consumed = n, diagnostics = ds\<rparr>"
  have "input ?p = Less # interleaveComma ps @ Greater # []" by simp
  from default_parser_accepts[OF False this, of "[]"] False
  have "default_parser ?p [] = (success, \<lparr>input = [], consumed = n + 2 * length ps + 1, diagnostics = ds\<rparr>, ps)"
    by simp
  moreover from False have "length (interleaveComma ps) = 2 * length ps - 1" "length ps > 0"
    by (simp_all add: length_interleaveComma)
  ultimately show ?thesis using False by simp
qed

text \<open>
  Claim C5, amended.  Let the definition use the default parse and print hooks, and let
  \<open>t\<close> be an instance whose parameters \<open>ps\<close> the verifier of the definition accepts.
  Printing \<open>t\<close> writes the name, followed by nothing when \<open>ps\<close> is empty and by \<^verbatim>\<open><\<close>, the
  parameters separated by commas and \<^verbatim>\<open>>\<close> otherwise.  Parsing the text after the name
  again succeeds, consumes all of it and yields \<open>t\<close> itself, in an unchanged context.
\<close>

theorem print_parse_roundtrip:
  assumes td: "deref (typeDefinitions ctx) D = Some td"
    and hooks: "td_parser td = default_parser" "td_printer td = default_printer"
    and inst: "DynamicType_get ctx D ps = Inr (Some t, ctx1)"
    and valid: "succeeded (fst (td_verifier td ps))"
  shows "\<exists>text parser1.
           text = (if ps = [] then [] else Less # interleaveComma ps @ [Greater]) \<and>
           DynamicType_print ctx1 (Some t) [] = Inr (BareIdentifier (td_name td) # text) \<and>
           DynamicType_parse ctx1 \<lparr>input = text, consumed = n, diagnostics = ds\<rparr> D parsedType =
             Inr (success, parser1, Some t, ctx1) \<and>
           input parser1 = []"
proof -
  let ?text = "if ps = [] then [] else Less # interleaveComma ps @ [Greater]"
  from valid have ok: "\<not> failed (fst (td_verifier td ps))"
    by (simp add: failed_def succeeded_def)
  note g = inst
  from DynamicType_get_canonical[OF g] td
  have can: "lookupStorage ctx1 (td_typeID td) (D, ps) = Some t"
    and defs: "typeDefinitions ctx1 = typeDefinitions ctx" by auto
  from td defs have td1: "deref (typeDefinitions ctx1) D = Some td" by simp
  from lookupStorage_matches[OF can] obtain s where s: "deref (typeStorages ctx1) t = Some s"
    and eq: "st_typeDef s = D" "st_params s = ps"
    by (auto simp: DynamicTypeStorage_eq_def)
  from s eq td1 hooks have pr: "DynamicType_print ctx1 (Some t) [] =
      Inr (BareIdentifier (td_name td) # ?text)"
    by (simp add: DynamicType_print_def getTypeDef_def getParams_def getImpl_def getName_def
        default_printer_def)
  let ?p1 = "\<lparr>input = [], consumed = n + length ?text, diagnostics = ds\<rparr>"
  have get1: "DynamicType_get ctx1 D ps = Inr (Some t, ctx1)"
    using td1 getWithTypeID_hit[OF can] by (simp add: DynamicType_get_def)
  obtain r msgs where v: "td_verifier td ps = (r, msgs)" by (cases "td_verifier td ps")
  with ok have r: "\<not> failed r" by simp
  let ?ds = "map (\<lambda>msg. (getCurrentLocation ?p1, msg)) msgs"
  from td1 v r get1
  have chk: "DynamicType_getChecked (\<lambda>msg. (getCurrentLocation ?p1, msg)) ctx1 D ps =
      Inr (Some t, ?ds, ctx1)"
    by (simp add: DynamicType_getChecked_def DynamicTypeDefinition_verify_def)
  have "DynamicType_parse ctx1 \<lparr>input = ?text, consumed = n, diagnostics = ds\<rparr> D parsedType =
      Inr (success, ?p1\<lparr>diagnostics := diagnostics ?p1 @ ?ds\<rparr>, Some t, ctx1)"
    unfolding DynamicType_parse_def using td1 hooks chk
    by (simp add: default_parser_printed del: AsmParser.simps)
  with pr show ?thesis by (intro exI[of _ ?text] exI[of _ "?p1\<lparr>diagnostics := diagnostics ?p1 @ ?ds\<rparr>"]) simp
qed

text \<open>
  Claim C5 as stated fails for an instance that the unchecked \<^verbatim>\<open>DynamicType::get\<close> built
  from parameters the verifier rejects: \<^verbatim>\<open>strict\<close> without parameters is interned and
  printed as \<^verbatim>\<open>strict\<close>, and parsing the empty parameter text again runs the verifier and
  yields the null type, not the instance.
\<close>

theorem print_parse_unverified:
  "DynamicType_get ex_types 1 [] = Inr (Some 0, ex_unchecked) \<and>
   DynamicType_print ex_unchecked (Some 0) [] = Inr [BareIdentifier ''strict''] \<and>
   DynamicType_parse ex_unchecked \<lparr>input = [], consumed = 1, diagnostics = []\<rparr> 1 None =
     Inr (success,
          \<lparr>input = [], consumed = 1, diagnostics = [(1, ''expected at least one parameter'')]\<rparr>,
          None, ex_unchecked)"
  by (simp add: ex_unchecked_def ex_defs DynamicType_print_def getTypeDef_def getParams_def
      getImpl_def getName_def default_printer_def DynamicType_parse_def
      DynamicType_getChecked_def DynamicTypeDefinition_verify_def default_parser_def
      parseOptionalLess_def nonempty_only_def failed_def getCurrentLocation_def)

text \<open>
  Claim C5, amended, on \<open>ex_interned\<close>, for \<^verbatim>\<open>dyn<1, 2, 3>\<close> and for \<^verbatim>\<open>dyn\<close> without
  parameters.
\<close>

theorem print_parse_roundtrip_witness:
  "\<exists>c p1 p2.
     DynamicType_get ex_interned 0 [1, 2, 3] = Inr (Some 1, c) \<and>
     DynamicType_print c (Some 1) [] =
       Inr [BareIdentifier ''dyn'', Less, AttrValue 1, Comma, AttrValue 2, Comma, AttrValue 3,
            Greater] \<and>
     DynamicType_parse c
       \<lparr>input = [Less, AttrValue 1, Comma, AttrValue 2, Comma, AttrValue 3, Greater],
        consumed = 1, diagnostics = []\<rparr> 0 None = Inr (success, p1, Some 1, c) \<and>
     DynamicType_get c 0 [] = Inr (Some 0, c) \<and>
     DynamicType_print c (Some 0) [] = Inr [BareIdentifier ''dyn''] \<and>
     DynamicType_parse c \<lparr>input = [], consumed = 1, diagnostics = []\<rparr> 0 None =
       Inr (success, p2, Some 0, c)"
proof -
  let ?td = "\<lparr>td_name = ''dyn'', td_dialect = 0, td_verifier = accept_all,
           td_parser = default_parser, td_printer = default_printer, td_typeID = 3\<rparr>"
  define c where "c = snd (projr (DynamicType_get ex_interned 0 [1, 2, 3]))"
  have td: "deref (typeDefinitions ex_interned) 0 = Some ?td"
    by (simp add: ex_interned_def ex_types_def ex_ctx_def deref_def)
  have e1: "DynamicType_get ex_interned 0 [1, 2, 3] = Inr (Some 1, c)"
    unfolding c_def by (simp add: ex_interned_def ex_defs)
  have tdc: "deref (typeDefinitions c) 0 = Some ?td"
    unfolding c_def by (simp add: ex_interned_def ex_defs)
  have e2: "DynamicType_get c 0 [] = Inr (Some 0, c)"
    unfolding c_def by (simp add: ex_interned_def ex_defs)
  have v1: "succeeded (fst (td_verifier ?td [1, 2, 3]))"
    and v2: "succeeded (fst (td_verifier ?td []))"
    by (simp_all add: accept_all_def succeeded_def)
  from print_parse_roundtrip[OF td _ _ e1 v1, of 1 "[]" None]
  obtain p1 where 1: "DynamicType_print c (Some 1) [] =
       Inr [BareIdentifier ''dyn'', Less, AttrValue 1, Comma, AttrValue 2, Comma, AttrValue 3,
            Greater]"
    "DynamicType_parse c
       \<lparr>input = [Less, AttrValue 1, Comma, AttrValue 2, Comma, AttrValue 3, Greater],
        consumed = 1, diagnostics = []\<rparr> 0 None = Inr (success, p1, Some 1, c)"
    by auto
  from print_parse_roundtrip[OF tdc _ _ e2 v2, of 1 "[]" None]
  obtain p2 where 2: "DynamicType_print c (Some 0) [] = Inr [BareIdentifier ''dyn'']"
    "DynamicType_parse c \<lparr>input = [], consumed = 1, diagnostics = []\<rparr> 0 None =
       Inr (success, p2, Some 0, c)"
    by auto
  from e1 1 e2 2 show ?thesis by blast
qed

subsection \<open>Printing\<close>

text \<open>
  Claim C9, amended.  For every dynamic type instance, \<^verbatim>\<open>DynamicType::print\<close> first
  writes the name of the definition, which is the name without the namespace of the
  dialect, and then calls the print hook of the definition on the parameter list of the
  instance.
\<close>

theorem DynamicType_print_spec:
  assumes "getImpl ctx t = Inr s"
    and "deref (typeDefinitions ctx) (st_typeDef s) = Some td"
  shows "DynamicType_print ctx t printer =
           Inr (td_printer td (printer @ [BareIdentifier (td_name td)]) (st_params s))"
  using assms
  by (simp add: DynamicType_print_def getTypeDef_def getParams_def getName_def)

text \<open>
  Claim C9 as stated fails: the type \<^verbatim>\<open>dyn\<close> of the dialect \<^verbatim>\<open>test\<close> is printed as
  \<^verbatim>\<open>dyn\<close>, not as the qualified name \<^verbatim>\<open>test.dyn\<close>.
\<close>

theorem DynamicType_print_unqualified:
  "DynamicType_print ex_interned (Some 0) [] = Inr [BareIdentifier ''dyn''] \<and>
   map_option d_namespace (deref (loadedDialects ex_interned) 0) = Some ''test'' \<and>
   map_option td_dialect (deref (typeDefinitions ex_interned) 0) = Some 0"
  by (simp add: DynamicType_print_def getTypeDef_def getParams_def getImpl_def getName_def
      ex_interned_def ex_types_def ex_ctx_def deref_def default_printer_def
      ExtensibleDialect_ctor_def Dialect_ctor_def addInterfaces_def)

text \<open>
  Claim C9, amended, on the instance of \<open>ex_interned\<close>, printed after a \<^verbatim>\<open><\<close>.
\<close>

theorem DynamicType_print_spec_witness:
  "DynamicType_print ex_interned (Some 0) [Less] = Inr [Less, BareIdentifier ''dyn'']"
proof -
  let ?td = "\<lparr>td_name = ''dyn'', td_dialect = 0, td_verifier = accept_all,
           td_parser = default_parser, td_printer = default_printer, td_typeID = 3\<rparr>"
  have 1: "getImpl ex_interned (Some 0) = Inr \<lparr>st_typeDef = 0, st_params = []\<rparr>"
    by (simp add: getImpl_def ex_interned_def deref_def)
  have 2: "deref (typeDefinitions ex_interned) (st_typeDef \<lparr>st_typeDef = 0, st_params = []\<rparr>) = Some ?td"
    by (simp add: ex_interned_def ex_types_def ex_ctx_def deref_def)
  from DynamicType_print_spec[OF 1 2, of "[Less]"] show ?thesis
    by (simp add: default_printer_def)
qed

subsection \<open>Dynamic operation definitions\<close>

text \<open>
  Claim C6.  For an operation definition created by
  \<^verbatim>\<open>DynamicOpDefinition::get(name, dialect, verifyFn)\<close>, every call of the parse hook fails
  and reports, at the current location, the non-empty diagnostic
  \<^verbatim>\<open>dynamic operation do not define any parser function\<close>; every call of the print hook
  is \<^verbatim>\<open>printGenericOp\<close>, which appends the generic form of the operation to the output.
\<close>

theorem DynamicOpDefinition_default_hooks:
  assumes "DynamicOpDefinition_get ctx nm dialect verifyFn = Inr (opDef, ctx1)"
  shows "(\<forall>parser result.
            op_parseFn opDef parser result =
              (failure, parser\<lparr>diagnostics := diagnostics parser @
                  [(getCurrentLocation parser,
                    ''dynamic operation do not define any parser function'')]\<rparr>)) \<and>
         ''dynamic operation do not define any parser function'' \<noteq> [] \<and>
         (\<forall>op printer. op_printFn opDef op printer = printGenericOp op printer \<and>
                       printGenericOp op printer = printer @ [GenericOpForm op])"
  using assms
  by (auto simp: DynamicOpDefinition_get_def DynamicOpDefinition_ctor_def allocateTypeID_def
      default_parseFn_def default_printFn_def emitError_def printGenericOp_def fun_eq_iff
      split: option.splits)

text \<open>
  Claim C6 for the operation \<^verbatim>\<open>op\<close> of the dialect \<^verbatim>\<open>test\<close>.
\<close>

theorem DynamicOpDefinition_default_hooks_witness:
  "\<exists>opDef ctx1.
     DynamicOpDefinition_get ex_ctx ''op'' 0 (\<lambda>op. success) = Inr (opDef, ctx1) \<and>
     op_parseFn opDef \<lparr>input = [Comma], consumed = 4, diagnostics = []\<rparr> 0 =
       (failure, \<lparr>input = [Comma], consumed = 4,
                  diagnostics = [(4, ''dynamic operation do not define any parser function'')]\<rparr>) \<and>
     op_printFn opDef 9 [] = [GenericOpForm 9]"
proof -
  define r where "r = projr (DynamicOpDefinition_get ex_ctx ''op'' 0 (\<lambda>op. success))"
  have e: "DynamicOpDefinition_get ex_ctx ''op'' 0 (\<lambda>op. success) = Inr (fst r, snd r)"
    unfolding r_def
    by (simp add: DynamicOpDefinition_get_def DynamicOpDefinition_ctor_def allocateTypeID_def
        ex_ctx_def deref_def)
  from DynamicOpDefinition_default_hooks[OF e] e show ?thesis
    by (intro exI[of _ "fst r"] exI[of _ "snd r"]) (simp add: getCurrentLocation_def)
qed

text \<open>
  The constructor stores the namespace of the dialect, the separator and the name, and
  has no assertion of its own; the five-argument \<^verbatim>\<open>get\<close> rejects a name with a separator.
\<close>

lemma DynamicOpDefinition_name:
  assumes "deref (loadedDialects ctx) dialect = Some d"
  shows "map_sum id (\<lambda>r. op_name (fst r)) (DynamicOpDefinition_ctor ctx nm dialect v p q) =
           Inr (d_namespace d @ ''.'' @ nm)"
  using assms by (simp add: DynamicOpDefinition_ctor_def allocateTypeID_def)

lemma DynamicOpDefinition_get_custom_rejects:
  "CHR ''.'' \<in> set nm \<Longrightarrow>
   DynamicOpDefinition_get_custom ctx nm dialect v p q =
     Inl (AssertionFailure ''name should not be prefixed by the dialect name'')"
  by (simp add: DynamicOpDefinition_get_custom_def)

text \<open>
  Claim C7 fails on the code.  \<^verbatim>\<open>DynamicOpDefinition::get(name, dialect, verifyFn)\<close>
  has no assertion on the name: for the name \<^verbatim>\<open>a.b\<close> it constructs a definition with
  the stored name \<^verbatim>\<open>test.a.b\<close>, where the five-argument \<^verbatim>\<open>get\<close> stops on its assertion.
\<close>

theorem DynamicOpDefinition_get_accepts_separator:
  "map_sum id (\<lambda>r. op_name (fst r)) (DynamicOpDefinition_get ex_ctx ''a.b'' 0 (\<lambda>op. success)) =
     Inr ''test.a.b'' \<and>
   DynamicOpDefinition_get_custom ex_ctx ''a.b'' 0 (\<lambda>op. success) default_parseFn default_printFn =
     Inl (AssertionFailure ''name should not be prefixed by the dialect name'')"
  by (simp add: DynamicOpDefinition_get_def DynamicOpDefinition_get_custom_def
      DynamicOpDefinition_ctor_def allocateTypeID_def ex_ctx_def deref_def
      ExtensibleDialect_ctor_def Dialect_ctor_def addInterfaces_def)

subsection \<open>Registration in an extensible dialect\<close>

text \<open>
  Claim C8.  \<^verbatim>\<open>addDynamicType\<close> stops on an assertion whenever the dialect of the
  definition is not the dialect it is registered into, whenever its identifier is
  already a key of \<open>dynTypes\<close>, and whenever its name is already a key of
  \<open>nameToDynTypes\<close>.  When none of the three holds, no assertion fails, and afterwards
  the dialect maps both the identifier and the name of the definition to it.
\<close>

theorem addDynamicType_guards:
  assumes d: "deref (loadedDialects ctx) this = Some d"
    and td: "deref (typeDefinitions ctx) type = Some td"
  shows "(td_dialect td \<noteq> this \<or> dynTypes d (td_typeID td) \<noteq> None \<or>
          nameToDynTypes d (td_name td) \<noteq> None \<longrightarrow>
            (\<exists>msg. addDynamicType ctx this type = Inl (AssertionFailure msg))) \<and>
         (td_dialect td = this \<and> dynTypes d (td_typeID td) = None \<and>
          nameToDynTypes d (td_name td) = None \<longrightarrow>
            (\<exists>ctx1 d1. addDynamicType ctx this type = Inr ctx1 \<and>
               deref (loadedDialects ctx1) this = Some d1 \<and>
               dynTypes d1 = (dynTypes d)(td_typeID td \<mapsto> type) \<and>
               nameToDynTypes d1 = (nameToDynTypes d)(td_name td \<mapsto> type)))"
proof (intro conjI impI)
  assume "td_dialect td \<noteq> this \<or> dynTypes d (td_typeID td) \<noteq> None \<or>
          nameToDynTypes d (td_name td) \<noteq> None"
  with d td show "\<exists>msg. addDynamicType ctx this type = Inl (AssertionFailure msg)"
    by (auto simp: addDynamicType_def getName_def Let_def)
next
  assume ok: "td_dialect td = this \<and> dynTypes d (td_typeID td) = None \<and>
          nameToDynTypes d (td_name td) = None"
  from d have lt: "this < length (loadedDialects ctx)"
    by (simp add: deref_def split: if_splits)
  let ?d1 = "d\<lparr>dynTypes := (dynTypes d)(td_typeID td \<mapsto> type),
               nameToDynTypes := (nameToDynTypes d)(td_name td \<mapsto> type)\<rparr>"
  from d td ok obtain ctx1 where r: "addDynamicType ctx this type = Inr ctx1"
    and l: "loadedDialects ctx1 = (loadedDialects ctx)[this := ?d1]"
    by (auto simp: addDynamicType_def getName_def Let_def registerInTypeUniquer_def
        registerType_def addType_def)
  from l lt have "deref (loadedDialects ctx1) this = Some ?d1"
    by (simp add: deref_def)
  with r show "\<exists>ctx1 d1. addDynamicType ctx this type = Inr ctx1 \<and>
               deref (loadedDialects ctx1) this = Some d1 \<and>
               dynTypes d1 = (dynTypes d)(td_typeID td \<mapsto> type) \<and>
               nameToDynTypes d1 = (nameToDynTypes d)(td_name td \<mapsto> type)"
    by (intro exI[of _ ctx1] exI[of _ ?d1]) simp
qed

text \<open>
  Claim C8 on \<open>ex_types\<close>: the first registration of \<^verbatim>\<open>dyn\<close> succeeds; registering it
  again, registering the second definition named \<^verbatim>\<open>dyn\<close>, and registering it into the
  dialect \<^verbatim>\<open>other\<close> all stop on an assertion.
\<close>

theorem addDynamicType_guards_witness:
  "\<exists>c1 d1.
     addDynamicType ex_types 0 0 = Inr c1 \<and>
     deref (loadedDialects c1) 0 = Some d1 \<and>
     dynTypes d1 3 = Some 0 \<and> nameToDynTypes d1 ''dyn'' = Some 0 \<and>
     addDynamicType c1 0 0 = Inl (AssertionFailure ''generated TypeID was not unique'') \<and>
     addDynamicType c1 0 2 =
       Inl (AssertionFailure ''Trying to create a new dynamic type with an existing name'') \<and>
     addDynamicType ex_types 1 0 =
       Inl (AssertionFailure ''trying to register a dynamic type in the wrong dialect'')"
proof -
  let ?td = "\<lparr>td_name = ''dyn'', td_dialect = 0, td_verifier = accept_all,
           td_parser = default_parser, td_printer = default_printer, td_typeID = 3\<rparr>"
  have d: "deref (loadedDialects ex_types) 0 = Some (ExtensibleDialect_ctor ''test'' 0)"
    by (simp add: ex_types_def ex_ctx_def deref_def)
  have td: "deref (typeDefinitions ex_types) 0 = Some ?td"
    by (simp add: ex_types_def ex_ctx_def deref_def)
  have ok: "td_dialect ?td = 0 \<and> dynTypes (ExtensibleDialect_ctor ''test'' 0) (td_typeID ?td) = None \<and>
      nameToDynTypes (ExtensibleDialect_ctor ''test'' 0) (td_name ?td) = None"
    by (simp add: ExtensibleDialect_ctor_def Dialect_ctor_def addInterfaces_def)
  from addDynamicType_guards[OF d td] ok obtain c1 d1
    where r: "addDynamicType ex_types 0 0 = Inr c1"
      and d1: "deref (loadedDialects c1) 0 = Some d1"
      and i1: "dynTypes d1 = (dynTypes (ExtensibleDialect_ctor ''test'' 0))(td_typeID ?td \<mapsto> 0)"
      and i2: "nameToDynTypes d1 =
                 (nameToDynTypes (ExtensibleDialect_ctor ''test'' 0))(td_name ?td \<mapsto> 0)"
    by blast
  have c1: "c1 = projr (addDynamicType ex_types 0 0)" by (simp add: r)
  have 2: "addDynamicType c1 0 0 = Inl (AssertionFailure ''generated TypeID was not unique'')"
    unfolding c1 by (simp add: addDynamicType_defs ex_dialect_defs)
  have 3: "addDynamicType c1 0 2 =
       Inl (AssertionFailure ''Trying to create a new dynamic type with an existing name'')"
    unfolding c1 by (simp add: addDynamicType_defs ex_dialect_defs)
  have 4: "addDynamicType ex_types 1 0 =
       Inl (AssertionFailure ''trying to register a dynamic type in the wrong dialect'')"
    by (simp add: addDynamicType_defs ex_dialect_defs)
  from r d1 i1 i2 2 3 4 show ?thesis
    by (intro exI[of _ c1] exI[of _ d1]) simp
qed

lemma addDynamicType_interfaces:
  assumes "addDynamicType ctx this type = Inr ctx1"
  shows "map_option registeredInterfaces (deref (loadedDialects ctx1) dialect) =
         map_option registeredInterfaces (deref (loadedDialects ctx) dialect)"
proof -
  from assms obtain d td where d: "deref (loadedDialects ctx) this = Some d"
    and td: "deref (typeDefinitions ctx) type = Some td"
    by (auto simp: addDynamicType_def split: option.splits)
  from d have lt: "this < length (loadedDialects ctx)"
    by (simp add: deref_def split: if_splits)
  from assms d td obtain d1 where l: "loadedDialects ctx1 = (loadedDialects ctx)[this := d1]"
    and i: "registeredInterfaces d1 = registeredInterfaces d"
    by (auto simp: addDynamicType_def getName_def Let_def registerInTypeUniquer_def
        registerType_def addType_def split: if_splits)
  show ?thesis
  proof (cases "dialect = this")
    case True
    with l lt i d show ?thesis by (simp add: deref_def)
  next
    case False
    with l show ?thesis by (simp add: deref_def)
  qed
qed

lemma classof_interfaces:
  "classof ctx dialect =
     (case map_option registeredInterfaces (deref (loadedDialects ctx) dialect) of
        None \<Rightarrow> Inl InvalidPointer
      | Some is \<Rightarrow> Inr (find (\<lambda>j. j = IsExtensibleDialect) is \<noteq> None))"
  by (simp add: classof_def getRegisteredInterface_def split: option.splits)

text \<open>
  Claim C10.  A dialect built by the constructor of \<^verbatim>\<open>ExtensibleDialect\<close> passes
  \<^verbatim>\<open>ExtensibleDialect::classof\<close> although its two indices are still empty, and neither
  \<^verbatim>\<open>addDynamicType\<close> nor \<^verbatim>\<open>addDynamicOp\<close> changes what \<^verbatim>\<open>classof\<close> returns for any dialect.
\<close>

theorem extensible_marker:
  "(deref (loadedDialects ctx) dialect = Some (ExtensibleDialect_ctor nm tid) \<longrightarrow>
      classof ctx dialect = Inr True) \<and>
   dynTypes (ExtensibleDialect_ctor nm tid) = Map.empty \<and>
   nameToDynTypes (ExtensibleDialect_ctor nm tid) = Map.empty \<and>
   (\<forall>ctx1. addDynamicType ctx this type = Inr ctx1 \<longrightarrow>
      classof ctx1 dialect = classof ctx dialect) \<and>
   (\<forall>ctx1. addDynamicOp ctx this opDef = Inr ctx1 \<longrightarrow>
      classof ctx1 dialect = classof ctx dialect)"
proof (intro conjI allI impI)
  assume "deref (loadedDialects ctx) dialect = Some (ExtensibleDialect_ctor nm tid)"
  then show "classof ctx dialect = Inr True"
    by (simp add: classof_def getRegisteredInterface_def ExtensibleDialect_ctor_def
        addInterfaces_def Dialect_ctor_def)
next
  show "dynTypes (ExtensibleDialect_ctor nm tid) = Map.empty"
    by (simp add: ExtensibleDialect_ctor_def addInterfaces_def Dialect_ctor_def)
next
  show "nameToDynTypes (ExtensibleDialect_ctor nm tid) = Map.empty"
    by (simp add: ExtensibleDialect_ctor_def addInterfaces_def Dialect_ctor_def)
next
  fix ctx1 assume "addDynamicType ctx this type = Inr ctx1"
  from addDynamicType_interfaces[OF this, of dialect]
  show "classof ctx1 dialect = classof ctx dialect"
    by (simp add: classof_interfaces)
next
  fix ctx1 assume "addDynamicOp ctx this opDef = Inr ctx1"
  then have "loadedDialects ctx1 = loadedDialects ctx"
    by (auto simp: addDynamicOp_def AbstractOperation_insert_def split: if_splits option.splits)
  then show "classof ctx1 dialect = classof ctx dialect"
    by (simp add: classof_def)
qed

text \<open>
  Claim C10 on the example contexts; the plain dialect \<^verbatim>\<open>builtin\<close> does not pass
  \<^verbatim>\<open>classof\<close>.
\<close>

theorem extensible_marker_witness:
  "classof ex_ctx 0 = Inr True \<and> classof ex_ctx 2 = Inr False \<and>
   (\<exists>c1. addDynamicType ex_types 0 0 = Inr c1 \<and> classof c1 0 = Inr True) \<and>
   (\<exists>opDef c0 c1. DynamicOpDefinition_get ex_ctx ''op'' 0 (\<lambda>op. success) = Inr (opDef, c0) \<and>
                 addDynamicOp c0 0 opDef = Inr c1 \<and> classof c1 0 = Inr True)"
proof -
  have d: "deref (loadedDialects ex_ctx) 0 = Some (ExtensibleDialect_ctor ''test'' 0)"
    by (simp add: ex_ctx_def deref_def)
  from extensible_marker[of ex_ctx 0 "''test''" 0] d
  have 1: "classof ex_ctx 0 = Inr True" by blast
  have 2: "classof ex_ctx 2 = Inr False"
    by (simp add: classof_def getRegisteredInterface_def ex_dialect_defs)
  have 0: "classof ex_types 0 = Inr True"
    by (simp add: classof_def getRegisteredInterface_def ex_dialect_defs)
  define c1 where "c1 = projr (addDynamicType ex_types 0 0)"
  have r: "addDynamicType ex_types 0 0 = Inr c1"
    unfolding c1_def by (simp add: addDynamicType_defs ex_dialect_defs)
  from extensible_marker[of ex_types 0 "''test''" 0 0 0] r 0
  have 3: "classof c1 0 = Inr True" by simp
  define q where "q = projr (DynamicOpDefinition_get ex_ctx ''op'' 0 (\<lambda>op. success))"
  have e: "DynamicOpDefinition_get ex_ctx ''op'' 0 (\<lambda>op. success) = Inr (fst q, snd q)"
    unfolding q_def
    by (simp add: DynamicOpDefinition_get_def DynamicOpDefinition_ctor_def allocateTypeID_def
        ex_ctx_def deref_def)
  define c2 where "c2 = projr (addDynamicOp (snd q) 0 (fst q))"
  have a: "addDynamicOp (snd q) 0 (fst q) = Inr c2"
    unfolding c2_def q_def
    by (simp add: addDynamicOp_def DynamicOpDefinition_get_def DynamicOpDefinition_ctor_def
        allocateTypeID_def ex_ctx_def deref_def)
  have b: "classof (snd q) 0 = Inr True"
    unfolding q_def
    by (simp add: classof_def getRegisteredInterface_def DynamicOpDefinition_get_def
        DynamicOpDefinition_ctor_def allocateTypeID_def ex_dialect_defs)
  from extensible_marker[of "snd q" 0 "''test''" 0 0 0 "fst q"] a b
  have 4: "classof c2 0 = Inr True" by simp
  from 1 2 r 3 e a 4 show ?thesis by blast
qed

end
